theory Spec2Isabelle
  imports Complex_Main "HOL-Library.AList"
begin

section \<open>Data model (\<^verbatim>\<open>src/types/character.ts\<close>)\<close>

text \<open>
  The TypeScript type \<^verbatim>\<open>number\<close> is modelled by \<^typ>\<open>int\<close>: a field of the character
  holds a whole number, that is, a double whose value is an integer. The arithmetic of the
  handlers is the arithmetic of doubles, which rounds a result to 53 significant bits; it is
  modelled in the next section. A result too large for a double would be infinite: the
  model has no such value and is about numbers below that size.

  A field declared optional (\<^verbatim>\<open>name?: T\<close>) is a \<^typ>\<open>'a option\<close>, with \<^term>\<open>None\<close>
  for \<^verbatim>\<open>undefined\<close>. The nullish default \<^verbatim>\<open>x ?? d\<close> is then a \<open>case\<close> on the option.
\<close>

record AbilityScores =
  strength :: int
  dexterity :: int
  constitution :: int
  intelligence :: int
  wisdom :: int
  charisma :: int

record InventoryItem =
  item_name :: string
  item_description :: "string option"
  item_cost :: "int option"

datatype equipment_entry = BareName string | Item InventoryItem

record Currency =
  platinum :: "int option"
  gold :: "int option"
  silver :: "int option"
  copper :: "int option"

text \<open>The sheet never inspects an attack entry (\<^verbatim>\<open>Array<any>\<close>); its type stays abstract.\<close>

typedecl js_any

text \<open>
  A JavaScript array of booleans. Writing beyond the end of an array leaves holes, which
  read as \<^verbatim>\<open>undefined\<close>; an element is therefore a \<^typ>\<open>bool option\<close>, with
  \<^term>\<open>None\<close> for a hole.
\<close>

type_synonym js_bool_array = "bool option list"

text \<open>
  The root entity. Field names follow the interface \<^verbatim>\<open>Character\<close>; \<^verbatim>\<open>id\<close>,
  \<^verbatim>\<open>name\<close>, \<^verbatim>\<open>class\<close>, \<^verbatim>\<open>subclass\<close>, \<^verbatim>\<open>size\<close> and \<^verbatim>\<open>notes\<close> are renamed because the
  names are taken. The last field, \<^verbatim>\<open>hit_dice_remaining\<close>, is not declared in the interface:
  the sheet reads and writes it through \<^verbatim>\<open>(character as any).hit_dice_remaining\<close>. The
  field \<^verbatim>\<open>spell_slots\<close> is declared without a question mark, but the sheet tests whether it
  is there before reading it, so it is optional here. A proficiency is a number from 0 to 3.
\<close>

record Character =
  char_id :: string
  char_name :: string
  race :: string
  class_name :: string
  background :: string
  level :: int
  ability_scores :: AbilityScores
  hit_points :: int
  armor_class :: int
  initiative :: int
  equipment :: "equipment_entry list"
  spells :: "string list"
  spell_slots :: "int list option"
  notes_text :: string
  subclass_name :: "string option"
  subrace :: "string option"
  alignment :: string
  speed :: "string option"
  size_name :: "string option"
  hit_dice :: "string option"
  attacks :: "js_any list option"
  max_hit_points :: "int option"
  temp_hp :: "int option"
  xp_current :: "int option"
  xp_max :: "int option"
  death_saves_success :: "js_bool_array option"
  death_saves_failure :: "js_bool_array option"
  saving_throw_proficiencies :: "(string \<rightharpoonup> nat) option"
  skill_proficiencies :: "(string \<rightharpoonup> nat) option"
  armor_proficiencies :: "string list option"
  weapon_proficiencies :: "string list option"
  tool_proficiencies :: "string list option"
  languages :: "string list option"
  heroic_inspiration :: "bool option"
  used_abilities :: "string list option"
  spell_slots_used :: "(string \<rightharpoonup> js_bool_array) option"
  currency :: "Currency option"
  hit_dice_remaining :: "int option"

section \<open>JavaScript numbers\<close>

text \<open>The number of binary digits of a natural number.\<close>

fun bit_length :: "nat \<Rightarrow> nat" where
  "bit_length n = (if n = 0 then 0 else Suc (bit_length (n div 2)))"

declare bit_length.simps [simp del]

text \<open>
  The double nearest to an integer. An integer of at most 53 bits is a double. A longer
  one lies between two neighbouring multiples of the unit in its last place and goes to the
  nearer one, and to the one with the even quotient when it lies in the middle.
\<close>

definition round53 :: "int \<Rightarrow> int" where
  "round53 n =
     (if \<bar>n\<bar> \<le> 2 ^ 53 then n
      else
        let ulp = 2 ^ (bit_length (nat \<bar>n\<bar>) - 53);
            q = \<bar>n\<bar> div ulp;
            r = \<bar>n\<bar> mod ulp;
            q' = (if 2 * r < ulp then q
                  else if ulp < 2 * r then q + 1
                  else if even q then q else q + 1)
        in sgn n * (q' * ulp))"

text \<open>\<^verbatim>\<open>a + b\<close>, \<^verbatim>\<open>a - b\<close> and \<^verbatim>\<open>a * b\<close> on whole numbers: the exact result, rounded.\<close>

definition js_add :: "int \<Rightarrow> int \<Rightarrow> int" where
  "js_add a b = round53 (a + b)"

definition js_sub :: "int \<Rightarrow> int \<Rightarrow> int" where
  "js_sub a b = round53 (a - b)"

definition js_mul :: "int \<Rightarrow> int \<Rightarrow> int" where
  "js_mul a b = round53 (a * b)"

text \<open>
  A double that need not be whole: the mantissa times two to the power of the exponent.
  Every double has a mantissa below \<open>2 ^ 53\<close> in absolute value with an exponent of at
  least \<open>- 1074\<close>.
\<close>

record js_double =
  mantissa :: int
  exponent :: int

definition double_value :: "js_double \<Rightarrow> real" where
  "double_value d =
     (if 0 \<le> exponent d then real_of_int (mantissa d * 2 ^ nat (exponent d))
      else real_of_int (mantissa d) / 2 ^ nat (- exponent d))"

text \<open>What \<^verbatim>\<open>Math.random()\<close> returns: a double that is at least 0 and less than 1.\<close>

definition isRandomDraw :: "js_double \<Rightarrow> bool" where
  "isRandomDraw d =
     (0 \<le> mantissa d \<and> mantissa d < 2 ^ 53 \<and> - 1074 \<le> exponent d
      \<and> (mantissa d = 0 \<or> (exponent d < 0 \<and> mantissa d < 2 ^ nat (- exponent d))))"

section \<open>Derived statistics (\<^verbatim>\<open>src/types/character.ts\<close>)\<close>

text \<open>
  \<^verbatim>\<open>Math.floor((score - 10) / 2)\<close>: the difference is rounded to a double; halving a double
  is exact, and \<^verbatim>\<open>Math.floor\<close> rounds towards minus infinity.
\<close>

definition getAbilityModifier :: "int \<Rightarrow> int" where
  "getAbilityModifier score = \<lfloor>real_of_int (js_sub score 10) / 2\<rfloor>"

section \<open>JavaScript idioms used by the sheet\<close>

text \<open>\<^verbatim>\<open>x || d\<close> on numbers: \<open>0\<close> is falsy, every other integer is truthy.\<close>

definition js_or :: "int \<Rightarrow> int \<Rightarrow> int" where
  "js_or x d = (if x = 0 then d else x)"

text \<open>\<^verbatim>\<open>!v\<close> on an array element: \<^verbatim>\<open>!undefined\<close> is \<^verbatim>\<open>true\<close>.\<close>

definition js_not :: "bool option \<Rightarrow> bool" where
  "js_not v = (case v of None \<Rightarrow> True | Some b \<Rightarrow> \<not> b)"

text \<open>
  \<^verbatim>\<open>arr[i] = !arr[i]\<close> for an integer \<open>i\<close>. The array indices are the whole numbers from 0 to
  \<open>2 ^ 32 - 2\<close>. Inside the array the element is replaced. At or beyond the end the read gives
  \<^verbatim>\<open>undefined\<close>, so the value written is \<^verbatim>\<open>true\<close>, and the write extends the array to length
  \<open>i + 1\<close>, leaving holes in between. An \<open>i\<close> that is negative or above \<open>2 ^ 32 - 2\<close> is no
  array index: the write creates a property named by \<open>i\<close> and touches neither the elements
  nor the length, and copying or serialising the array drops that property, so the elements
  stay as they are.
\<close>

definition js_toggle_at :: "js_bool_array \<Rightarrow> int \<Rightarrow> js_bool_array" where
  "js_toggle_at arr i =
     (if i < 0 \<or> 4294967294 < i then arr
      else if nat i < length arr then arr[nat i := Some (js_not (arr ! nat i))]
      else arr @ replicate (nat i - length arr) None @ [Some True])"

text \<open>
  \<^verbatim>\<open>String(n)\<close> for an integer \<open>n\<close>: its decimal digits, with a minus sign below zero. (From
  \<open>10 ^ 21\<close> on JavaScript writes a number with an exponent; the sheet passes the spell levels
  1 to 9.)
\<close>

definition digit_char :: "nat \<Rightarrow> char" where
  "digit_char d = ''0123456789'' ! d"

fun digits_of_nat :: "nat \<Rightarrow> string" where
  "digits_of_nat n =
     (if n < 10 then [digit_char n] else digits_of_nat (n div 10) @ [digit_char (n mod 10)])"

declare digits_of_nat.simps [simp del]

definition js_String :: "int \<Rightarrow> string" where
  "js_String n = (if n < 0 then CHR ''-'' # digits_of_nat (nat (- n)) else digits_of_nat (nat n))"

datatype js_error = RangeError

text \<open>
  \<^verbatim>\<open>Array(n).fill(false)\<close>: an array holds at most \<open>2 ^ 32 - 1\<close> elements, and the constructor
  throws a RangeError for a length that is negative or above that.
\<close>

definition js_Array_fill_false :: "int \<Rightarrow> js_error + js_bool_array" where
  "js_Array_fill_false n =
     (if n < 0 \<or> 4294967295 < n then Inl RangeError else Inr (replicate (nat n) (Some False)))"

text \<open>\<^verbatim>\<open>while (arr.length < maxSlots) arr.push(false)\<close>\<close>

function pad_false :: "js_bool_array \<Rightarrow> int \<Rightarrow> js_bool_array" where
  "pad_false arr maxSlots =
     (if int (length arr) < maxSlots then pad_false (arr @ [Some False]) maxSlots else arr)"
  by pat_completeness auto
termination
  by (relation "measure (\<lambda>(arr, maxSlots). nat (maxSlots - int (length arr)))") auto

declare pad_false.simps [simp del]

text \<open>
  The same loop with the limit of an array: asked for more than \<open>2 ^ 32 - 1\<close> elements, the
  loop goes on until the array holds \<open>2 ^ 32 - 1\<close>, and the next \<^verbatim>\<open>push\<close> throws a RangeError.
\<close>

definition js_pad_false :: "js_bool_array \<Rightarrow> int \<Rightarrow> js_error + js_bool_array" where
  "js_pad_false arr maxSlots =
     (if 4294967295 < maxSlots then Inl RangeError else Inr (pad_false arr maxSlots))"

section \<open>Character sheet operations (\<^verbatim>\<open>src/pages/CharacterSheet.tsx\<close>)\<close>

text \<open>
  Every handler of the sheet builds an updated character from the current one, stores it as
  the component's state and passes it to \<^verbatim>\<open>saveCharacter\<close>. The model of a handler is the
  function from the current character (and the handler's input) to that updated character.
  The handlers return at once when no character is loaded; the functions below are about a
  loaded one.
\<close>

text \<open>
  The hit die of each class. The table is an object literal, written out three times in the
  sheet with the same entries.
\<close>

definition classHitDie :: "string \<rightharpoonup> int" where
  "classHitDie =
     [''Bard'' \<mapsto> 8, ''Barbarian'' \<mapsto> 12, ''Fighter'' \<mapsto> 10, ''Paladin'' \<mapsto> 10,
      ''Ranger'' \<mapsto> 10, ''Cleric'' \<mapsto> 8, ''Druid'' \<mapsto> 8, ''Monk'' \<mapsto> 8, ''Rogue'' \<mapsto> 8,
      ''Warlock'' \<mapsto> 8, ''Sorcerer'' \<mapsto> 6, ''Wizard'' \<mapsto> 6]"

text \<open>The names that every object literal inherits from \<^verbatim>\<open>Object.prototype\<close>.\<close>

definition objectPrototypeNames :: "string list" where
  "objectPrototypeNames =
     [''constructor'', ''hasOwnProperty'', ''isPrototypeOf'', ''propertyIsEnumerable'',
      ''toLocaleString'', ''toString'', ''valueOf'', ''__proto__'', ''__defineGetter__'',
      ''__defineSetter__'', ''__lookupGetter__'', ''__lookupSetter__'']"

text \<open>
  \<^verbatim>\<open>classHitDie[cls] ?? 8\<close>: the entry of the class; a d8 for a class that the lookup does not
  find; and for a class named like an inherited member the lookup finds that member, which is
  not \<^verbatim>\<open>undefined\<close> and not a number, so that there is no die (\<^term>\<open>None\<close>) and every
  number computed from it is \<^verbatim>\<open>NaN\<close>.
\<close>

definition hitDieOf :: "Character \<Rightarrow> int option" where
  "hitDieOf character =
     (case classHitDie (class_name character) of
        Some d \<Rightarrow> Some d
      | None \<Rightarrow> if class_name character \<in> set objectPrototypeNames then None else Some 8)"

text \<open>\<^verbatim>\<open>const maxHit = character.max_hit_points ?? (character.level * 8)\<close>\<close>

definition maxHit :: "Character \<Rightarrow> int" where
  "maxHit character =
     (case max_hit_points character of
        Some m \<Rightarrow> m | None \<Rightarrow> js_mul (level character) 8)"

text \<open>
  The change handler of the Current HP input. The argument is \<^verbatim>\<open>Number(e.target.value)\<close>:
  \<^term>\<open>Some n\<close> for the integer \<open>n\<close>, \<^term>\<open>None\<close> for a value that is not finite.
\<close>

definition setHitPoints :: "Character \<Rightarrow> int option \<Rightarrow> Character" where
  "setHitPoints character raw =
     (let v = (case raw of Some r \<Rightarrow> max 0 (min r (maxHit character)) | None \<Rightarrow> 0)
      in character\<lparr>hit_points := v\<rparr>)"

text \<open>The change handler of the Max HP input.\<close>

definition setMaxHitPoints :: "Character \<Rightarrow> int option \<Rightarrow> Character" where
  "setMaxHitPoints character raw =
     (let v = (case raw of Some r \<Rightarrow> max 1 r | None \<Rightarrow> js_mul (level character) 8);
          updated = character\<lparr>max_hit_points := Some v\<rparr>
      in if hit_points updated > v then updated\<lparr>hit_points := v\<rparr> else updated)"

text \<open>The click handlers of the death-save buttons, one for each row.\<close>

definition toggleDeathSaveSuccess :: "Character \<Rightarrow> int \<Rightarrow> Character" where
  "toggleDeathSaveSuccess character i =
     (let arr = (case death_saves_success character of
                   Some a \<Rightarrow> a | None \<Rightarrow> [Some False, Some False, Some False])
      in character\<lparr>death_saves_success := Some (js_toggle_at arr i)\<rparr>)"

definition toggleDeathSaveFailure :: "Character \<Rightarrow> int \<Rightarrow> Character" where
  "toggleDeathSaveFailure character i =
     (let arr = (case death_saves_failure character of
                   Some a \<Rightarrow> a | None \<Rightarrow> [Some False, Some False, Some False])
      in character\<lparr>death_saves_failure := Some (js_toggle_at arr i)\<rparr>)"

datatype death_save_kind = Success | Failure

definition toggleDeathSave :: "Character \<Rightarrow> death_save_kind \<Rightarrow> int \<Rightarrow> Character" where
  "toggleDeathSave character kind i =
     (case kind of Success \<Rightarrow> toggleDeathSaveSuccess character i
                 | Failure \<Rightarrow> toggleDeathSaveFailure character i)"

text \<open>A death-save row as the sheet reads it: \<^verbatim>\<open>character.death_saves_success ?? [false, false, false]\<close>.\<close>

definition deathSaves :: "Character \<Rightarrow> death_save_kind \<Rightarrow> js_bool_array" where
  "deathSaves character kind =
     (case (case kind of Success \<Rightarrow> death_saves_success character
                       | Failure \<Rightarrow> death_saves_failure character) of
        Some a \<Rightarrow> a | None \<Rightarrow> [Some False, Some False, Some False])"

text \<open>
  The slot count of a spell level: the declared count \<^verbatim>\<open>spell_slots[level - 1]\<close> when there
  is one, and otherwise two for the first level of a Bard and none for anything else.
\<close>

definition resolveMaxSlots :: "Character \<Rightarrow> int \<Rightarrow> int" where
  "resolveMaxSlots character lvl =
     (let fallback = (if lvl = 1 \<and> class_name character = ''Bard'' \<and> level character \<ge> 1
                      then 2 else 0)
      in case spell_slots character of
           None \<Rightarrow> fallback
         | Some slots \<Rightarrow>
             if 0 \<le> lvl - 1 \<and> nat (lvl - 1) < length slots then slots ! nat (lvl - 1)
             else fallback)"

definition toggleSpellSlot :: "Character \<Rightarrow> int \<Rightarrow> int \<Rightarrow> js_error + Character" where
  "toggleSpellSlot character lvl slotIndex =
     (let key = js_String lvl;
          existing = (case spell_slots_used character of Some m \<Rightarrow> m | None \<Rightarrow> Map.empty);
          maxSlots = resolveMaxSlots character lvl
      in case (case existing key of Some a \<Rightarrow> Inr a | None \<Rightarrow> js_Array_fill_false maxSlots) of
           Inl e \<Rightarrow> Inl e
         | Inr arr0 \<Rightarrow>
             (case js_pad_false arr0 maxSlots of
                Inl e \<Rightarrow> Inl e
              | Inr padded \<Rightarrow>
                  let arr = js_toggle_at padded slotIndex
                  in Inr (character\<lparr>spell_slots_used := Some (existing(key \<mapsto> arr))\<rparr>)))"

text \<open>
  A handler that computes hit points from a die that is no number stores \<^verbatim>\<open>NaN\<close> as the hit
  points. A character has no such value; the outcome is \<^term>\<open>Inl NaN\<close>.
\<close>

datatype not_a_number = NaN

text \<open>
  The confirm handler of the Long Rest dialog. The die of the class is looked up only when
  no maximum is stored.
\<close>

definition applyLongRest :: "Character \<Rightarrow> not_a_number + Character" where
  "applyLongRest character =
     (let lvl = js_or (level character) 1;
          currentRemaining = (case hit_dice_remaining character of Some r \<Rightarrow> r | None \<Rightarrow> lvl);
          regain = max 1 \<lfloor>real_of_int lvl / 2\<rfloor>;
          newRemaining = min lvl (js_add currentRemaining regain);
          restored = (case max_hit_points character of
                        Some m \<Rightarrow> Some m
                      | None \<Rightarrow> map_option (js_mul lvl) (hitDieOf character))
      in case restored of
           None \<Rightarrow> Inl NaN
         | Some hp \<Rightarrow>
             Inr (character\<lparr>
                    used_abilities := Some [],
                    spell_slots_used := Some Map.empty,
                    hit_points := hp,
                    hit_dice_remaining := Some newRemaining\<rparr>))"

text \<open>
  \<^verbatim>\<open>Math.floor(Math.random() * die) + 1\<close>, with the double that \<^verbatim>\<open>Math.random()\<close> returned as
  an argument. The product of the draw and the die is the product of the mantissa and the
  die, rounded, with the exponent of the draw; its floor is a whole number.
\<close>

definition rollDie :: "int \<Rightarrow> js_double \<Rightarrow> int" where
  "rollDie die draw =
     (let product = round53 (mantissa draw * die);
          floored = (if 0 \<le> exponent draw then product * 2 ^ nat (exponent draw)
                     else product div 2 ^ nat (- exponent draw))
      in js_add floored 1)"


text \<open>
  The click handler of the button Confirm Level Up. Its inputs besides the character are the
  two pieces of dialog state: the choice between the average and a roll, and the number
  rolled beforehand with the dialog's Roll button, if any. With the choice of a roll and no
  number rolled yet, a Bard is shown an alert and nothing is updated.
\<close>

datatype hp_choice = Average | Roll

datatype alert = PleaseRollOrTakeAverage

definition levelUpHpIncrease :: "Character \<Rightarrow> hp_choice \<Rightarrow> int option \<Rightarrow> alert + int" where
  "levelUpHpIncrease character levelUpHPChoice levelUpHPRoll =
     (if class_name character = ''Bard'' then
        (if levelUpHPChoice = Average then
           Inr (js_add 5 (getAbilityModifier (constitution (ability_scores character))))
         else case levelUpHPRoll of
                Some r \<Rightarrow>
                  Inr (js_add r (getAbilityModifier (constitution (ability_scores character))))
              | None \<Rightarrow> Inl PleaseRollOrTakeAverage)
      else Inr 0)"

definition confirmLevelUp :: "Character \<Rightarrow> hp_choice \<Rightarrow> int option \<Rightarrow> alert + Character" where
  "confirmLevelUp character levelUpHPChoice levelUpHPRoll =
     (case levelUpHpIncrease character levelUpHPChoice levelUpHPRoll of
        Inl a \<Rightarrow> Inl a
      | Inr hpIncrease \<Rightarrow>
          let updated = character\<lparr>level := js_add (level character) 1\<rparr>
          in Inr (if class_name character = ''Bard'' then
                    updated\<lparr>
                      hit_points := js_add (hit_points character) hpIncrease,
                      max_hit_points :=
                        Some (js_add (case max_hit_points character of
                                        Some m \<Rightarrow> js_or m (hit_points character)
                                      | None \<Rightarrow> hit_points character)
                                hpIncrease)\<rparr>
                  else updated))"

section \<open>Character creation form (\<^verbatim>\<open>src/pages/CharactersPage.tsx\<close>)\<close>

text \<open>
  The part of the form's state that the Abilities tab reads and writes. The two records
  \<^verbatim>\<open>standardAssigned\<close> and \<^verbatim>\<open>pointBuyScores\<close> are objects keyed by ability name; they are
  association lists here, in insertion order, so that \<^verbatim>\<open>Object.entries\<close> and
  \<^verbatim>\<open>Object.values\<close> are the list and its second components, and the spread
  \<^verbatim>\<open>{...obj, [key]: v}\<close> is \<^const>\<open>AList.update\<close>.
\<close>

datatype ability_method = Standard | Rolled | PointBuy | Manual

datatype creation_tab = BasicTab | ClassTab | BackgroundTab | SpeciesTab | AbilitiesTab | ReviewTab

record creation_form =
  abilities :: AbilityScores
  abilityMethod :: ability_method
  standardAssigned :: "(string \<times> int) list"
  pointBuyScores :: "(string \<times> int) list"
  rolledPool :: "int list"
  creationTab :: creation_tab
  abilitiesError :: "string option"

text \<open>\<^verbatim>\<open>Object.keys(abilities)\<close> and \<^verbatim>\<open>Object.values(abilities)\<close>\<close>

definition ability_keys :: "string list" where
  "ability_keys =
     [''strength'', ''dexterity'', ''constitution'', ''intelligence'', ''wisdom'', ''charisma'']"

definition ability_values :: "AbilityScores \<Rightarrow> int list" where
  "ability_values a =
     [strength a, dexterity a, constitution a, intelligence a, wisdom a, charisma a]"

definition STANDARD_ARRAY :: "int list" where
  "STANDARD_ARRAY = [15, 14, 13, 12, 10, 8]"

text \<open>
  The options that the select of one ability offers: the array values that no other ability
  holds, and the ability's own current value.
\<close>

definition standardOptions :: "(string \<times> int) list \<Rightarrow> string \<Rightarrow> int list" where
  "standardOptions assigned key =
     (let used = map snd (filter (\<lambda>(k, v). k \<noteq> key) assigned)
      in filter (\<lambda>v. v \<notin> set used \<or> map_of assigned key = Some v) STANDARD_ARRAY)"

text \<open>The change handler of that select: \<^verbatim>\<open>{ ...standardAssigned, [key]: Number(e.target.value) }\<close>.\<close>

definition selectStandard :: "(string \<times> int) list \<Rightarrow> string \<Rightarrow> int \<Rightarrow> (string \<times> int) list" where
  "selectStandard assigned key v = AList.update key v assigned"

text \<open>
  The assignments that the form can hold. It starts with no assignment, and the only code
  that writes \<^verbatim>\<open>standardAssigned\<close> is the change handler of the six selects, one for each key
  of \<^verbatim>\<open>abilities\<close>. A select yields one of its options, or the empty string of the entry
  Select, which \<^verbatim>\<open>Number\<close> turns into \<open>0\<close>.
\<close>

inductive standardReachable :: "(string \<times> int) list \<Rightarrow> bool" where
  initial: "standardReachable []"
| select: "standardReachable assigned \<Longrightarrow> key \<in> set ability_keys \<Longrightarrow>
           v = 0 \<or> v \<in> set (standardOptions assigned key) \<Longrightarrow>
           standardReachable (selectStandard assigned key v)"

text \<open>\<^verbatim>\<open>keys.every(k => !!standardAssigned[k])\<close>: a missing entry and \<open>0\<close> are falsy.\<close>

definition standardAssignedAll :: "(string \<times> int) list \<Rightarrow> bool" where
  "standardAssignedAll assigned =
     list_all (\<lambda>k. case map_of assigned k of Some v \<Rightarrow> v \<noteq> 0 | None \<Rightarrow> False) ability_keys"

text \<open>The cost of a score in point buy.\<close>

definition pointBuyTable :: "int \<rightharpoonup> int" where
  "pointBuyTable = [9 \<mapsto> 1, 10 \<mapsto> 1, 11 \<mapsto> 1, 12 \<mapsto> 1, 13 \<mapsto> 1, 14 \<mapsto> 2, 15 \<mapsto> 2]"

text \<open>\<^verbatim>\<open>for (let s = 9; s <= score; s++) cost += table[s] ?? 0\<close>, entered with \<open>s\<close> and \<open>cost\<close>.\<close>

function pointBuyLoop :: "int \<Rightarrow> int \<Rightarrow> int \<Rightarrow> int" where
  "pointBuyLoop score s cost =
     (if s \<le> score
      then pointBuyLoop score (s + 1)
             (cost + (case pointBuyTable s of Some c \<Rightarrow> c | None \<Rightarrow> 0))
      else cost)"
  by pat_completeness auto
termination
  by (relation "measure (\<lambda>(score, s, cost). nat (score + 1 - s))") auto

declare pointBuyLoop.simps [simp del]

definition pointBuyCostFor :: "int \<Rightarrow> int" where
  "pointBuyCostFor score = (if score \<le> 8 then 0 else pointBuyLoop score 9 0)"

text \<open>\<^verbatim>\<open>Object.values(pointBuyScores).reduce((s, v) => s + pointBuyCostFor(v), 0)\<close>\<close>

definition pointBuyTotal :: "(string \<times> int) list \<Rightarrow> int" where
  "pointBuyTotal scores = foldl (\<lambda>s v. s + pointBuyCostFor v) 0 (map snd scores)"

text \<open>
  The two checks of the rolled method: every ability holds a positive value, and no value is
  assigned more often than the pool holds it.
\<close>

definition rolledAssignedAll :: "AbilityScores \<Rightarrow> bool" where
  "rolledAssignedAll a = list_all (\<lambda>v. v > 0) (ability_values a)"

definition rolledExceedsPool :: "AbilityScores \<Rightarrow> int list \<Rightarrow> bool" where
  "rolledExceedsPool a pool =
     list_ex (\<lambda>val. count_list pool val < count_list (ability_values a) val)
       (remdups (ability_values a))"

text \<open>
  \<^verbatim>\<open>validateAbilities\<close> returns whether the tab is valid. On failure it sets the error
  message and shows the Abilities tab; on success it clears the message.
\<close>

definition validationFails :: "creation_form \<Rightarrow> string \<Rightarrow> bool \<times> creation_form" where
  "validationFails form msg = (False, form\<lparr>abilitiesError := Some msg, creationTab := AbilitiesTab\<rparr>)"

definition validateAbilities :: "creation_form \<Rightarrow> bool \<times> creation_form" where
  "validateAbilities form =
     (if abilityMethod form = Standard \<and> \<not> standardAssignedAll (standardAssigned form) then
        validationFails form
          ''Please assign all standard array values to abilities before continuing''
      else if abilityMethod form = Rolled \<and> \<not> rolledAssignedAll (abilities form) then
        validationFails form
          ''Please assign each rolled value to an ability before continuing''
      else if abilityMethod form = Rolled
                \<and> rolledExceedsPool (abilities form) (rolledPool form) then
        validationFails form
          ''Rolled assignments exceed the available rolled values. Adjust assignments.''
      else if abilityMethod form = PointBuy \<and> pointBuyTotal (pointBuyScores form) > 27 then
        validationFails form
          ''Point buy exceeds available points (27). Adjust scores before continuing.''
      else (True, form\<lparr>abilitiesError := None\<rparr>))"

text \<open>
  The branch of \<^verbatim>\<open>goNext\<close> for the Abilities tab:
  \<^verbatim>\<open>if (!validateAbilities()) return; setCreationTab('review')\<close>.
\<close>

definition goNextFromAbilities :: "creation_form \<Rightarrow> creation_form" where
  "goNextFromAbilities form =
     (case validateAbilities form of
        (False, form') \<Rightarrow> form'
      | (True, form') \<Rightarrow> form'\<lparr>creationTab := ReviewTab\<rparr>)"

text \<open>
  What the selects maintain: every assigned ability is one of the six, its value is \<open>0\<close>
  or a value of the array, and no value other than \<open>0\<close> is held by two abilities.
\<close>

definition standardInv :: "(string \<rightharpoonup> int) \<Rightarrow> bool" where
  "standardInv m =
     ((\<forall>k v. m k = Some v \<longrightarrow> k \<in> set ability_keys \<and> (v = 0 \<or> v \<in> set STANDARD_ARRAY))
      \<and> (\<forall>k k' v. m k = Some v \<and> m k' = Some v \<and> v \<noteq> 0 \<longrightarrow> k = k'))"

section \<open>Well-formed data and sample data\<close>

text \<open>An array without holes, as the type \<^verbatim>\<open>boolean[]\<close> has it.\<close>

definition isBooleanArray :: "js_bool_array \<Rightarrow> bool" where
  "isBooleanArray arr = list_all (\<lambda>v. v \<noteq> None) arr"

text \<open>
  The invariant of the death saves: each row, read through its default, holds exactly three
  booleans.
\<close>

definition deathSavesOk :: "Character \<Rightarrow> bool" where
  "deathSavesOk character =
     (length (deathSaves character Success) = 3 \<and> isBooleanArray (deathSaves character Success)
      \<and> length (deathSaves character Failure) = 3 \<and> isBooleanArray (deathSaves character Failure))"

text \<open>A first-level Bard as the creation form builds it.\<close>

definition sampleScores :: AbilityScores where
  "sampleScores =
     \<lparr>strength = 8, dexterity = 14, constitution = 13, intelligence = 12, wisdom = 10,
      charisma = 15\<rparr>"

definition sampleBard :: Character where
  "sampleBard =
     \<lparr>char_id = ''c-1'', char_name = ''Lyra'', race = ''Human'', class_name = ''Bard'',
      background = ''Entertainer'', level = 1, ability_scores = sampleScores, hit_points = 9,
      armor_class = 13, initiative = 2, equipment = [BareName ''Lute''],
      spells = [''Vicious Mockery''], spell_slots = Some [2], notes_text = [],
      subclass_name = None, subrace = None, alignment = ''Neutral'', speed = None,
      size_name = None, hit_dice = None, attacks = None, max_hit_points = Some 9,
      temp_hp = Some 0, xp_current = None, xp_max = None,
      death_saves_success = Some [Some False, Some False, Some False],
      death_saves_failure = Some [Some False, Some False, Some False],
      saving_throw_proficiencies = None, skill_proficiencies = None,
      armor_proficiencies = None, weapon_proficiencies = None, tool_proficiencies = None,
      languages = None, heroic_inspiration = Some False, used_abilities = Some [],
      spell_slots_used = Some [''1'' \<mapsto> [Some False, Some False]], currency = None,
      hit_dice_remaining = None\<rparr>"

text \<open>A fourth-level character in need of a long rest.\<close>

definition tiredBard :: Character where
  "tiredBard =
     sampleBard\<lparr>level := 4, used_abilities := Some [''x''],
       spell_slots_used := Some [''1'' \<mapsto> [Some True, Some True]], hit_points := 5,
       max_hit_points := Some 20, hit_dice_remaining := Some 0\<rparr>"

text \<open>A character with 15 of 20 hit points.\<close>

definition woundedBard :: Character where
  "woundedBard = sampleBard\<lparr>hit_points := 15, max_hit_points := Some 20, temp_hp := Some 3\<rparr>"

text \<open>A character with two declared first-level slots and no record of used slots.\<close>

definition freshCaster :: Character where
  "freshCaster = sampleBard\<lparr>spell_slots_used := None\<rparr>"




text \<open>
  A record of an earlier version of the program, saved without \<^verbatim>\<open>max_hit_points\<close>: a
  Barbarian of level 3 with 10 hit points.
\<close>

definition legacyBarbarian :: Character where
  "legacyBarbarian =
     sampleBard\<lparr>class_name := ''Barbarian'', level := 3, hit_points := 10,
       max_hit_points := None, spell_slots := Some [], spell_slots_used := Some Map.empty\<rparr>"

text \<open>Another such record: a Bard of level 3 with 5 hit points.\<close>

definition legacyBard :: Character where
  "legacyBard = sampleBard\<lparr>level := 3, hit_points := 5, max_hit_points := None\<rparr>"

text \<open>
  A Bard with a Constitution of 1 and 3 of 3 hit points, and the same Bard after a level-up
  with a roll of 1.
\<close>

definition frailBard :: Character where
  "frailBard =
     sampleBard\<lparr>ability_scores := sampleScores\<lparr>constitution := 1\<rparr>, hit_points := 3,
       max_hit_points := Some 3\<rparr>"

definition brokenBard :: Character where
  "brokenBard = frailBard\<lparr>level := 2, hit_points := - 1, max_hit_points := Some (- 1)\<rparr>"

text \<open>
  A Bard with a Constitution of 10 whose hit points were typed into the sheet:
  \<open>2 ^ 53\<close> of \<open>2 ^ 54\<close>, with one hit die left.
\<close>

definition giantBard :: Character where
  "giantBard =
     sampleBard\<lparr>ability_scores := sampleScores\<lparr>constitution := 10\<rparr>,
       hit_points := 9007199254740992, max_hit_points := Some 18014398509481984,
       hit_dice_remaining := Some 1\<rparr>"

text \<open>A character saved without the row of death-save successes.\<close>

definition dyingBard :: Character where
  "dyingBard = sampleBard\<lparr>hit_points := 0, death_saves_success := None\<rparr>"

text \<open>A form with the point-buy scores 15, 14, 13, 12, 10 and 8, which cost 27 points.\<close>

definition pointBuyForm :: creation_form where
  "pointBuyForm =
     \<lparr>abilities = \<lparr>strength = 10, dexterity = 10, constitution = 10, intelligence = 10,
                   wisdom = 10, charisma = 10\<rparr>,
      abilityMethod = PointBuy, standardAssigned = [],
      pointBuyScores = [(''strength'', 15), (''dexterity'', 14), (''constitution'', 13),
                        (''intelligence'', 12), (''wisdom'', 10), (''charisma'', 8)],
      rolledPool = [], creationTab = AbilitiesTab, abilitiesError = None\<rparr>"

text \<open>A form whose point-buy scores cost 28 points.\<close>

definition overspentForm :: creation_form where
  "overspentForm =
     pointBuyForm\<lparr>pointBuyScores :=
       [(''strength'', 15), (''dexterity'', 15), (''constitution'', 15),
        (''intelligence'', 9), (''wisdom'', 8), (''charisma'', 8)]\<rparr>"

text \<open>A form with the standard array assigned to the six abilities.\<close>

definition standardForm :: creation_form where
  "standardForm =
     pointBuyForm\<lparr>abilityMethod := Standard,
       standardAssigned :=
         [(''strength'', 15), (''dexterity'', 14), (''constitution'', 13),
          (''intelligence'', 12), (''wisdom'', 10), (''charisma'', 8)]\<rparr>"

text \<open>The same form after the select of Wisdom was set back to its empty entry.\<close>

definition unfinishedForm :: creation_form where
  "unfinishedForm =
     standardForm\<lparr>standardAssigned :=
       [(''strength'', 15), (''dexterity'', 14), (''constitution'', 13),
        (''intelligence'', 12), (''wisdom'', 0), (''charisma'', 8)]\<rparr>"

text \<open>An assignment that holds 15 twice and 14 not at all.\<close>

definition duplicateForm :: creation_form where
  "duplicateForm =
     standardForm\<lparr>standardAssigned :=
       [(''strength'', 15), (''dexterity'', 15), (''constitution'', 13),
        (''intelligence'', 12), (''wisdom'', 10), (''charisma'', 8)]\<rparr>"

text \<open>The double nearest to \<open>0.7\<close>, which is a little less than \<open>0.7\<close>.\<close>

definition sevenTenths :: js_double where
  "sevenTenths = \<lparr>mantissa = 6305039478318694, exponent = - 53\<rparr>"

text \<open>The Barbarian of level 3 saved without a maximum, after a long rest.\<close>

definition restedBarbarian :: Character where
  "restedBarbarian =
     legacyBarbarian\<lparr>used_abilities := Some [], spell_slots_used := Some Map.empty,
       hit_points := 36, hit_dice_remaining := Some 3\<rparr>"

text \<open>
  A record without a maximum whose class has the name of a member that every object
  inherits.
\<close>

definition inheritedNameClass :: Character where
  "inheritedNameClass = legacyBarbarian\<lparr>class_name := ''constructor''\<rparr>"

text \<open>The Bard of level 3 saved without a maximum, after a level-up with the average.\<close>

definition levelledLegacyBard :: Character where
  "levelledLegacyBard = legacyBard\<lparr>level := 4, hit_points := 11, max_hit_points := Some 11\<rparr>"

text \<open>A Bard with a Constitution of 10 and \<open>2 ^ 53\<close> of \<open>2 ^ 53\<close> hit points.\<close>

definition fullGiantBard :: Character where
  "fullGiantBard = giantBard\<lparr>max_hit_points := Some 9007199254740992\<rparr>"

text \<open>A character with a declared count of \<open>-1\<close> first-level slots and no record of used slots.\<close>

definition negativeSlots :: Character where
  "negativeSlots = sampleBard\<lparr>spell_slots := Some [- 1], spell_slots_used := None\<rparr>"

text \<open>A character with a declared count of \<open>2 ^ 32\<close> first-level slots and no record of used slots.\<close>

definition countlessSlots :: Character where
  "countlessSlots = sampleBard\<lparr>spell_slots := Some [4294967296], spell_slots_used := None\<rparr>"

section \<open>Rounding to a double\<close>

lemma round53_exact: "\<bar>n\<bar> \<le> 2 ^ 53 \<Longrightarrow> round53 n = n"
  by (simp add: round53_def)

lemma js_exact:
  "\<bar>a + b\<bar> \<le> 2 ^ 53 \<Longrightarrow> js_add a b = a + b"
  "\<bar>a - b\<bar> \<le> 2 ^ 53 \<Longrightarrow> js_sub a b = a - b"
  "\<bar>a * b\<bar> \<le> 2 ^ 53 \<Longrightarrow> js_mul a b = a * b"
  by (simp_all add: js_add_def js_sub_def js_mul_def round53_exact)


lemma round53_eval:
  "round53 36028797018963958 = 36028797018963960"
  "round53 9007199254740993 = 9007199254740992"
  "round53 9007199254740997 = 9007199254740996"
  by (simp_all add: round53_def bit_length.simps Let_def)







section \<open>The roll of a die\<close>










text \<open>
  The product of a draw and the die is rounded before its floor is taken: ten times the
  double nearest to \<open>0.7\<close> is less than 7 and is rounded to 7, so that the roll is 8.
\<close>

lemma rollDie_sevenTenths:
  "isRandomDraw sevenTenths"
  "rollDie 10 sevenTenths = 8"
  "\<lfloor>double_value sevenTenths * 10\<rfloor> + 1 = 7"
proof -
  show "isRandomDraw sevenTenths" by (simp add: isRandomDraw_def sevenTenths_def)
  have "round53 63050394783186940 = 63050394783186944"
    by (simp add: round53_def bit_length.simps Let_def)
  then show "rollDie 10 sevenTenths = 8"
    by (simp add: rollDie_def sevenTenths_def js_exact)
  have "double_value sevenTenths * 10 = real_of_int 63050394783186940 / real_of_int 9007199254740992"
    by (simp add: double_value_def sevenTenths_def)
  then have "\<lfloor>double_value sevenTenths * 10\<rfloor> = 63050394783186940 div 9007199254740992"
    by (simp only: floor_divide_of_int_eq)
  then show "\<lfloor>double_value sevenTenths * 10\<rfloor> + 1 = 7" by simp
qed

section \<open>The ability modifier\<close>

lemma floor_half: "\<lfloor>real_of_int k / 2\<rfloor> = k div 2"
  using floor_divide_of_int_eq [of k 2] by simp

lemma getAbilityModifier_round: "getAbilityModifier s = round53 (s - 10) div 2"
  unfolding getAbilityModifier_def js_sub_def by (simp only: floor_half)

lemma getAbilityModifier_div:
  "\<bar>s - 10\<bar> \<le> 2 ^ 53 \<Longrightarrow> getAbilityModifier s = (s - 10) div 2"
  by (simp only: getAbilityModifier_round round53_exact)

text \<open>
  Claim C9, as amended. For every integer score \<open>s\<close> the modifier is the floor of half the
  difference \<open>s - 10\<close> as a double, which is \<open>s - 10\<close> rounded to 53 significant bits. So for
  every score with \<open>\<bar>s - 10\<bar> \<le> 2 ^ 53\<close> the modifier is the floor of \<open>(s - 10) / 2\<close>: it is the
  integer quotient rounded towards minus infinity, that is, the one integer \<open>m\<close> with
  \<open>2 m \<le> s - 10 < 2 m + 2\<close>. The function is total, so there is no error case. The spot
  values are modifier(10) = 0, modifier(15) = 2, modifier(8) = -1 and modifier(20) = 5.
\<close>

theorem C9_getAbilityModifier_floor:
  "(\<bar>s - 10\<bar> \<le> 2 ^ 53 \<longrightarrow>
      getAbilityModifier s = \<lfloor>real_of_int (s - 10) / 2\<rfloor>
      \<and> getAbilityModifier s = (s - 10) div 2
      \<and> 2 * getAbilityModifier s \<le> s - 10
      \<and> s - 10 < 2 * getAbilityModifier s + 2)
   \<and> getAbilityModifier s = round53 (s - 10) div 2
   \<and> getAbilityModifier 10 = 0
   \<and> getAbilityModifier 15 = 2
   \<and> getAbilityModifier 8 = - 1
   \<and> getAbilityModifier 20 = 5"
proof -
  have inside: "\<bar>s - 10\<bar> \<le> 2 ^ 53 \<longrightarrow>
      getAbilityModifier s = \<lfloor>real_of_int (s - 10) / 2\<rfloor>
      \<and> getAbilityModifier s = (s - 10) div 2
      \<and> 2 * getAbilityModifier s \<le> s - 10
      \<and> s - 10 < 2 * getAbilityModifier s + 2"
  proof
    assume "\<bar>s - 10\<bar> \<le> 2 ^ 53"
    then have d: "getAbilityModifier s = (s - 10) div 2" by (rule getAbilityModifier_div)
    have f: "\<lfloor>real_of_int (s - 10) / 2\<rfloor> = (s - 10) div 2" by (rule floor_half)
    show "getAbilityModifier s = \<lfloor>real_of_int (s - 10) / 2\<rfloor>
      \<and> getAbilityModifier s = (s - 10) div 2
      \<and> 2 * getAbilityModifier s \<le> s - 10
      \<and> s - 10 < 2 * getAbilityModifier s + 2"
      unfolding f d by presburger
  qed
  have spots: "getAbilityModifier 10 = 0" "getAbilityModifier 15 = 2"
    "getAbilityModifier 8 = - 1" "getAbilityModifier 20 = 5"
    by (simp_all add: getAbilityModifier_div)
  from inside spots getAbilityModifier_round [of s] show ?thesis by blast
qed

text \<open>A Constitution of 13 gives \<open>+1\<close> and a Constitution of 1 gives \<open>-5\<close>.\<close>

theorem C9_getAbilityModifier_witness:
  "\<bar>(13::int) - 10\<bar> \<le> 2 ^ 53 \<and> getAbilityModifier 13 = 1
   \<and> \<bar>(1::int) - 10\<bar> \<le> 2 ^ 53 \<and> getAbilityModifier 1 = - 5"
  using C9_getAbilityModifier_floor [of 13] C9_getAbilityModifier_floor [of 1] by simp

text \<open>
  The score \<open>2 ^ 55\<close>, which the Manual field of the creation form accepts: the difference
  \<open>2 ^ 55 - 10\<close> has 55 bits and lies in the middle between the doubles \<open>2 ^ 55 - 8\<close> and
  \<open>2 ^ 55 - 16\<close>; it is rounded to the former, so that the modifier is one more than the
  floor of \<open>(s - 10) / 2\<close>.
\<close>

theorem C9_large_score_counterexample:
  "getAbilityModifier 36028797018963968 = 18014398509481980
   \<and> \<lfloor>real_of_int (36028797018963968 - 10) / 2\<rfloor> = 18014398509481979
   \<and> getAbilityModifier 36028797018963968 \<noteq> \<lfloor>real_of_int (36028797018963968 - 10) / 2\<rfloor>"
proof -
  have a: "getAbilityModifier 36028797018963968 = 18014398509481980"
    by (simp add: getAbilityModifier_round round53_eval)
  have b: "\<lfloor>real_of_int (36028797018963968 - 10) / 2\<rfloor> = 18014398509481979"
    by (simp only: floor_half)
  show ?thesis unfolding a b by simp
qed

section \<open>Current and maximum hit points\<close>

lemma setHitPoints_update:
  "setHitPoints c (Some n) = c\<lparr>hit_points := max 0 (min n (maxHit c))\<rparr>"
  by (simp add: setHitPoints_def)

lemma setMaxHitPoints_update:
  "setMaxHitPoints c (Some n) =
     c\<lparr>max_hit_points := Some (max 1 n), hit_points := min (hit_points c) (max 1 n)\<rparr>"
  by (auto simp add: setMaxHitPoints_def Let_def min_def)

lemma maxHit_hit_points_update: "maxHit (c\<lparr>hit_points := v\<rparr>) = maxHit c"
  by (simp add: maxHit_def split: option.split)

lemma wounded_facts:
  "hit_points woundedBard = 15"
  "max_hit_points woundedBard = Some 20"
  "temp_hp woundedBard = Some 3"
  "maxHit woundedBard = 20"
  by (simp_all add: maxHit_def woundedBard_def sampleBard_def)

lemma frail_facts:
  "class_name frailBard = ''Bard''"
  "level frailBard = 1"
  "hit_points frailBard = 3"
  "max_hit_points frailBard = Some 3"
  "getAbilityModifier (constitution (ability_scores frailBard)) = - 5"
  by (simp_all add: frailBard_def sampleBard_def sampleScores_def getAbilityModifier_div)

lemma broken_facts:
  "max_hit_points brokenBard = Some (- 1)"
  "maxHit brokenBard = - 1"
  "hit_points brokenBard = - 1"
  "temp_hp brokenBard = Some 0"
  by (simp_all add: maxHit_def brokenBard_def frailBard_def sampleBard_def)

lemma legacyBard_facts:
  "class_name legacyBard = ''Bard''"
  "level legacyBard = 3"
  "hit_points legacyBard = 5"
  "max_hit_points legacyBard = None"
  "getAbilityModifier (constitution (ability_scores legacyBard)) = 1"
  "maxHit legacyBard = 24"
  by (simp_all add: legacyBard_def sampleBard_def sampleScores_def getAbilityModifier_div
        maxHit_def js_exact)

text \<open>
  The level-up of a Bard with a Constitution of 1 and 3 of 3 hit points who rolled a 1: the
  hit points and the maximum both become \<open>3 + (1 - 5) = -1\<close>.
\<close>

lemma frailBard_levelUp: "confirmLevelUp frailBard Roll (Some 1) = Inr brokenBard"
  by (simp add: confirmLevelUp_def levelUpHpIncrease_def frail_facts brokenBard_def
        js_exact js_or_def Let_def)

text \<open>
  Claim C3, as amended. Setting the current hit points to an integer \<open>n\<close> stores
  \<open>max 0 (min n maximum)\<close>, where the maximum is the stored \<^verbatim>\<open>max_hit_points\<close>, or eight
  times the level when none is stored (a product of doubles, which is the exact product up
  to \<open>2 ^ 53\<close>). The result is never negative. When the maximum is not negative, the result
  is \<open>n\<close> clamped into the interval from 0 to the maximum: 0 below the interval, the maximum
  above it and \<open>n\<close> inside, so that it does not exceed the maximum. When the maximum is
  negative, the result is 0, which exceeds the maximum. The temporary hit points, the
  maximum and every other field stay as they are.
\<close>

theorem C3_setHitPoints_clamps:
  "setHitPoints c (Some n) = c\<lparr>hit_points := max 0 (min n (maxHit c))\<rparr>
   \<and> 0 \<le> hit_points (setHitPoints c (Some n))
   \<and> (0 \<le> maxHit c \<longrightarrow>
        hit_points (setHitPoints c (Some n)) \<le> maxHit c
        \<and> hit_points (setHitPoints c (Some n))
            = (if n < 0 then 0 else if maxHit c < n then maxHit c else n))
   \<and> (maxHit c < 0 \<longrightarrow>
        hit_points (setHitPoints c (Some n)) = 0
        \<and> maxHit c < hit_points (setHitPoints c (Some n)))
   \<and> temp_hp (setHitPoints c (Some n)) = temp_hp c
   \<and> maxHit (setHitPoints c (Some n)) = maxHit c
   \<and> (\<forall>m. max_hit_points c = Some m \<longrightarrow> maxHit c = m)
   \<and> (max_hit_points c = None \<longrightarrow> maxHit c = js_mul (level c) 8)
   \<and> (max_hit_points c = None \<and> \<bar>level c * 8\<bar> \<le> 2 ^ 53 \<longrightarrow> maxHit c = level c * 8)"
  by (simp add: setHitPoints_update maxHit_hit_points_update) (simp add: maxHit_def js_exact)

text \<open>
  The example of the claim: with a maximum of 20, \<open>-5\<close> gives 0 and 999 gives 20. With the
  maximum of \<open>-1\<close>, 5 gives 0. For a Bard of level 3 saved without a maximum, 30 gives 24.
\<close>

theorem C3_setHitPoints_witness:
  "0 \<le> maxHit woundedBard
   \<and> max_hit_points woundedBard = Some 20
   \<and> maxHit woundedBard = 20
   \<and> hit_points (setHitPoints woundedBard (Some (- 5))) = 0
   \<and> hit_points (setHitPoints woundedBard (Some 999)) = 20
   \<and> hit_points (setHitPoints woundedBard (Some 7)) = 7
   \<and> temp_hp (setHitPoints woundedBard (Some 999)) = Some 3
   \<and> maxHit brokenBard < 0
   \<and> hit_points (setHitPoints brokenBard (Some 5)) = 0
   \<and> max_hit_points legacyBard = None
   \<and> \<bar>level legacyBard * 8\<bar> \<le> 2 ^ 53
   \<and> maxHit legacyBard = 24
   \<and> hit_points (setHitPoints legacyBard (Some 30)) = 24"
  using C3_setHitPoints_clamps [of woundedBard "- 5"] C3_setHitPoints_clamps [of woundedBard 999]
    C3_setHitPoints_clamps [of woundedBard 7] C3_setHitPoints_clamps [of brokenBard 5]
    C3_setHitPoints_clamps [of legacyBard 30]
  by (simp add: wounded_facts broken_facts legacyBard_facts)

text \<open>
  A Bard with a Constitution of 1 and 3 of 3 hit points is levelled up with a roll of 1 to
  \<open>-1\<close> of \<open>-1\<close> hit points. Setting the current hit points of that character to 5 stores 0,
  which is not in the interval from 0 to the maximum.
\<close>

theorem C3_negative_maximum_counterexample:
  "confirmLevelUp frailBard Roll (Some 1) = Inr brokenBard
   \<and> max_hit_points brokenBard = Some (- 1)
   \<and> hit_points (setHitPoints brokenBard (Some 5)) = 0
   \<and> max_hit_points (setHitPoints brokenBard (Some 5)) = Some (- 1)
   \<and> \<not> hit_points (setHitPoints brokenBard (Some 5)) \<le> maxHit (setHitPoints brokenBard (Some 5))"
  by (simp add: frailBard_levelUp setHitPoints_update maxHit_hit_points_update broken_facts)

text \<open>
  Claim C4. Setting the maximum hit points to an integer \<open>n\<close> stores \<open>max 1 n\<close>, which is
  at least 1, and a current value above the new maximum is lowered to it; a current
  value that does not exceed it, and every other field, stay as they are.
\<close>

theorem C4_setMaxHitPoints_clamps:
  "max_hit_points (setMaxHitPoints c (Some n)) = Some (max 1 n)
   \<and> 1 \<le> max 1 n
   \<and> (n \<ge> 1 \<longrightarrow> max_hit_points (setMaxHitPoints c (Some n)) = Some n)
   \<and> (hit_points c > max 1 n \<longrightarrow> hit_points (setMaxHitPoints c (Some n)) = max 1 n)
   \<and> (hit_points c \<le> max 1 n \<longrightarrow> hit_points (setMaxHitPoints c (Some n)) = hit_points c)
   \<and> hit_points (setMaxHitPoints c (Some n)) \<le> maxHit (setMaxHitPoints c (Some n))
   \<and> setMaxHitPoints c (Some n) =
       c\<lparr>max_hit_points := Some (max 1 n), hit_points := min (hit_points c) (max 1 n)\<rparr>"
  by (auto simp add: setMaxHitPoints_update maxHit_def split: option.split)

text \<open>The example of the claim: 15 of 20 hit points, and the maximum set to 10.\<close>

theorem C4_setMaxHitPoints_witness:
  "hit_points woundedBard = 15
   \<and> max_hit_points woundedBard = Some 20
   \<and> hit_points woundedBard > max 1 10
   \<and> hit_points (setMaxHitPoints woundedBard (Some 10)) = 10
   \<and> max_hit_points (setMaxHitPoints woundedBard (Some 10)) = Some 10"
proof -
  have h: "hit_points woundedBard = 15" and m: "max_hit_points woundedBard = Some 20"
    by (simp_all add: woundedBard_def sampleBard_def)
  show ?thesis
    using C4_setMaxHitPoints_clamps [of woundedBard 10] h m by simp
qed

section \<open>The hit die of a class\<close>



lemma hitDieOf_table:
  "class_name c = ''Barbarian'' \<Longrightarrow> hitDieOf c = Some 12"
  "class_name c = ''Fighter'' \<Longrightarrow> hitDieOf c = Some 10"
  "class_name c = ''Paladin'' \<Longrightarrow> hitDieOf c = Some 10"
  "class_name c = ''Ranger'' \<Longrightarrow> hitDieOf c = Some 10"
  "class_name c = ''Bard'' \<Longrightarrow> hitDieOf c = Some 8"
  "class_name c = ''Cleric'' \<Longrightarrow> hitDieOf c = Some 8"
  "class_name c = ''Druid'' \<Longrightarrow> hitDieOf c = Some 8"
  "class_name c = ''Monk'' \<Longrightarrow> hitDieOf c = Some 8"
  "class_name c = ''Rogue'' \<Longrightarrow> hitDieOf c = Some 8"
  "class_name c = ''Warlock'' \<Longrightarrow> hitDieOf c = Some 8"
  "class_name c = ''Sorcerer'' \<Longrightarrow> hitDieOf c = Some 6"
  "class_name c = ''Wizard'' \<Longrightarrow> hitDieOf c = Some 6"
  by (simp_all add: hitDieOf_def classHitDie_def)

lemma hitDieOf_unknown:
  "classHitDie (class_name c) = None \<Longrightarrow> class_name c \<notin> set objectPrototypeNames
   \<Longrightarrow> hitDieOf c = Some 8"
  by (simp add: hitDieOf_def)

lemma hitDieOf_inherited:
  "class_name c \<in> set objectPrototypeNames \<Longrightarrow> hitDieOf c = None"
  unfolding hitDieOf_def objectPrototypeNames_def classHitDie_def by auto

lemma hitDieOf_cases:
  "hitDieOf c =
     (if class_name c = ''Barbarian'' then Some 12
      else if class_name c \<in> {''Fighter'', ''Paladin'', ''Ranger''} then Some 10
      else if class_name c \<in> {''Sorcerer'', ''Wizard''} then Some 6
      else if class_name c \<in> set objectPrototypeNames then None
      else Some 8)"
  unfolding hitDieOf_def classHitDie_def objectPrototypeNames_def by simp

section \<open>The long rest\<close>

lemma applyLongRest_update:
  assumes "1 \<le> level c"
  shows "applyLongRest c =
           (case (case max_hit_points c of
                    Some m \<Rightarrow> Some m
                  | None \<Rightarrow> map_option (js_mul (level c)) (hitDieOf c)) of
              None \<Rightarrow> Inl NaN
            | Some hp \<Rightarrow>
                Inr (c\<lparr>used_abilities := Some [], spell_slots_used := Some Map.empty,
                       hit_points := hp,
                       hit_dice_remaining :=
                         Some (min (level c)
                                (js_add (case hit_dice_remaining c of
                                           Some n \<Rightarrow> n | None \<Rightarrow> level c)
                                   (max 1 (level c div 2))))\<rparr>))"
  using assms by (simp add: applyLongRest_def js_or_def floor_half Let_def)

lemma applyLongRest_stored:
  assumes "1 \<le> level c" and "max_hit_points c = Some m"
  shows "applyLongRest c =
           Inr (c\<lparr>used_abilities := Some [], spell_slots_used := Some Map.empty,
                  hit_points := m,
                  hit_dice_remaining :=
                    Some (min (level c)
                           (js_add (case hit_dice_remaining c of
                                      Some n \<Rightarrow> n | None \<Rightarrow> level c)
                              (max 1 (level c div 2))))\<rparr>)"
  by (simp add: applyLongRest_update [OF assms(1)] assms(2))

lemma applyLongRest_fallback:
  assumes "1 \<le> level c" and "max_hit_points c = None" and "hitDieOf c = Some die"
  shows "applyLongRest c =
           Inr (c\<lparr>used_abilities := Some [], spell_slots_used := Some Map.empty,
                  hit_points := js_mul (level c) die,
                  hit_dice_remaining :=
                    Some (min (level c)
                           (js_add (case hit_dice_remaining c of
                                      Some n \<Rightarrow> n | None \<Rightarrow> level c)
                              (max 1 (level c div 2))))\<rparr>)"
  by (simp add: applyLongRest_update [OF assms(1)] assms(2,3))

lemma applyLongRest_NaN:
  assumes "1 \<le> level c" and "max_hit_points c = None" and "hitDieOf c = None"
  shows "applyLongRest c = Inl NaN"
  by (simp add: applyLongRest_update [OF assms(1)] assms(2,3))

text \<open>
  Claim C1, as amended. Take a character of level \<open>L \<ge> 1\<close>, and let \<open>r\<close> be its hit dice
  remaining (the stored \<^verbatim>\<open>hit_dice_remaining\<close>, or all \<open>L\<close> dice when none is stored). The
  long rest empties \<^verbatim>\<open>used_abilities\<close>, empties \<^verbatim>\<open>spell_slots_used\<close> and sets the remaining
  hit dice to the smaller of \<open>L\<close> and the sum of \<open>r\<close> and \<open>max 1 (L div 2)\<close>; the sum is the
  sum of doubles, which is the exact sum when that is at most \<open>2 ^ 53\<close> in absolute value.
  When a maximum of hit points is stored, the hit points are set to it. When none is
  stored, the hit points are set to the product of \<open>L\<close> and the hit die of the class, and
  still no maximum is stored. The die is 12 for a Barbarian, 10 for a Fighter, a Paladin and
  a Ranger, 6 for a Sorcerer and a Wizard, and 8 for every other class; only a class named
  like an inherited member of the table has no die, and the hit points are then no number.
  No other field changes.
\<close>

theorem C1_applyLongRest:
  assumes "1 \<le> level c"
    and "r = (case hit_dice_remaining c of Some n \<Rightarrow> n | None \<Rightarrow> level c)"
    and "dice = min (level c) (js_add r (max 1 (level c div 2)))"
  shows "(\<forall>m. max_hit_points c = Some m \<longrightarrow>
            (\<exists>c'. applyLongRest c = Inr c'
               \<and> used_abilities c' = Some []
               \<and> spell_slots_used c' = Some Map.empty
               \<and> Some (hit_points c') = max_hit_points c'
               \<and> hit_dice_remaining c' = Some dice
               \<and> c' = c\<lparr>used_abilities := Some [], spell_slots_used := Some Map.empty,
                        hit_points := m, hit_dice_remaining := Some dice\<rparr>))
       \<and> (\<forall>die. max_hit_points c = None \<and> hitDieOf c = Some die \<longrightarrow>
            (\<exists>c'. applyLongRest c = Inr c'
               \<and> used_abilities c' = Some []
               \<and> spell_slots_used c' = Some Map.empty
               \<and> hit_points c' = js_mul (level c) die
               \<and> (\<bar>level c * die\<bar> \<le> 2 ^ 53 \<longrightarrow> hit_points c' = level c * die)
               \<and> max_hit_points c' = None
               \<and> hit_dice_remaining c' = Some dice
               \<and> c' = c\<lparr>used_abilities := Some [], spell_slots_used := Some Map.empty,
                        hit_points := js_mul (level c) die,
                        hit_dice_remaining := Some dice\<rparr>))
       \<and> (max_hit_points c = None \<and> hitDieOf c = None \<longrightarrow> applyLongRest c = Inl NaN)
       \<and> (\<bar>r + max 1 (level c div 2)\<bar> \<le> 2 ^ 53 \<longrightarrow>
            dice = min (level c) (r + max 1 (level c div 2)))
       \<and> hitDieOf c =
           (if class_name c = ''Barbarian'' then Some 12
            else if class_name c \<in> {''Fighter'', ''Paladin'', ''Ranger''} then Some 10
            else if class_name c \<in> {''Sorcerer'', ''Wizard''} then Some 6
            else if class_name c \<in> set objectPrototypeNames then None
            else Some 8)"
proof -
  have stored: "\<forall>m. max_hit_points c = Some m \<longrightarrow>
            (\<exists>c'. applyLongRest c = Inr c'
               \<and> used_abilities c' = Some []
               \<and> spell_slots_used c' = Some Map.empty
               \<and> Some (hit_points c') = max_hit_points c'
               \<and> hit_dice_remaining c' = Some dice
               \<and> c' = c\<lparr>used_abilities := Some [], spell_slots_used := Some Map.empty,
                        hit_points := m, hit_dice_remaining := Some dice\<rparr>)"
  proof (intro allI impI)
    fix m assume m: "max_hit_points c = Some m"
    have "applyLongRest c =
            Inr (c\<lparr>used_abilities := Some [], spell_slots_used := Some Map.empty,
                   hit_points := m, hit_dice_remaining := Some dice\<rparr>)"
      unfolding assms(2,3) by (rule applyLongRest_stored [OF assms(1) m])
    then show "\<exists>c'. applyLongRest c = Inr c'
               \<and> used_abilities c' = Some []
               \<and> spell_slots_used c' = Some Map.empty
               \<and> Some (hit_points c') = max_hit_points c'
               \<and> hit_dice_remaining c' = Some dice
               \<and> c' = c\<lparr>used_abilities := Some [], spell_slots_used := Some Map.empty,
                        hit_points := m, hit_dice_remaining := Some dice\<rparr>"
      using m by simp
  qed
  have fallback: "\<forall>die. max_hit_points c = None \<and> hitDieOf c = Some die \<longrightarrow>
            (\<exists>c'. applyLongRest c = Inr c'
               \<and> used_abilities c' = Some []
               \<and> spell_slots_used c' = Some Map.empty
               \<and> hit_points c' = js_mul (level c) die
               \<and> (\<bar>level c * die\<bar> \<le> 2 ^ 53 \<longrightarrow> hit_points c' = level c * die)
               \<and> max_hit_points c' = None
               \<and> hit_dice_remaining c' = Some dice
               \<and> c' = c\<lparr>used_abilities := Some [], spell_slots_used := Some Map.empty,
                        hit_points := js_mul (level c) die,
                        hit_dice_remaining := Some dice\<rparr>)"
  proof (intro allI impI)
    fix die assume h: "max_hit_points c = None \<and> hitDieOf c = Some die"
    have "applyLongRest c =
            Inr (c\<lparr>used_abilities := Some [], spell_slots_used := Some Map.empty,
                   hit_points := js_mul (level c) die, hit_dice_remaining := Some dice\<rparr>)"
      unfolding assms(2,3) using h by (intro applyLongRest_fallback [OF assms(1)]) simp_all
    then show "\<exists>c'. applyLongRest c = Inr c'
               \<and> used_abilities c' = Some []
               \<and> spell_slots_used c' = Some Map.empty
               \<and> hit_points c' = js_mul (level c) die
               \<and> (\<bar>level c * die\<bar> \<le> 2 ^ 53 \<longrightarrow> hit_points c' = level c * die)
               \<and> max_hit_points c' = None
               \<and> hit_dice_remaining c' = Some dice
               \<and> c' = c\<lparr>used_abilities := Some [], spell_slots_used := Some Map.empty,
                        hit_points := js_mul (level c) die,
                        hit_dice_remaining := Some dice\<rparr>"
      using h by (simp add: js_exact)
  qed
  have nan: "max_hit_points c = None \<and> hitDieOf c = None \<longrightarrow> applyLongRest c = Inl NaN"
    using applyLongRest_NaN [OF assms(1)] by blast
  have exact: "\<bar>r + max 1 (level c div 2)\<bar> \<le> 2 ^ 53 \<longrightarrow>
            dice = min (level c) (r + max 1 (level c div 2))"
    by (simp add: assms(3) js_exact)
  show ?thesis by (intro conjI stored fallback nan exact hitDieOf_cases)
qed

lemma tired_facts:
  "level tiredBard = 4" "hit_dice_remaining tiredBard = Some 0"
  "max_hit_points tiredBard = Some 20" "used_abilities tiredBard = Some [''x'']"
  "hit_points tiredBard = 5"
  by (simp_all add: tiredBard_def sampleBard_def)

lemma legacyBarbarian_facts:
  "level legacyBarbarian = 3" "hit_dice_remaining legacyBarbarian = None"
  "max_hit_points legacyBarbarian = None" "class_name legacyBarbarian = ''Barbarian''"
  "hit_points legacyBarbarian = 10"
  by (simp_all add: legacyBarbarian_def sampleBard_def)

lemma restedBarbarian_facts:
  "hit_points restedBarbarian = 36" "max_hit_points restedBarbarian = None"
  "level restedBarbarian = 3"
  by (simp_all add: restedBarbarian_def legacyBarbarian_facts)

lemma inheritedNameClass_facts:
  "level inheritedNameClass = 3" "max_hit_points inheritedNameClass = None"
  "hit_dice_remaining inheritedNameClass = None"
  "hitDieOf inheritedNameClass = None"
proof -
  show "level inheritedNameClass = 3" "max_hit_points inheritedNameClass = None"
    "hit_dice_remaining inheritedNameClass = None"
    by (simp_all add: inheritedNameClass_def legacyBarbarian_facts)
  have "class_name inheritedNameClass = ''constructor''" by (simp add: inheritedNameClass_def)
  then have "class_name inheritedNameClass \<in> set objectPrototypeNames"
    by (simp add: objectPrototypeNames_def)
  then show "hitDieOf inheritedNameClass = None" by (rule hitDieOf_inherited)
qed

text \<open>
  The example of the claim: abilities \<open>{x}\<close> used, both first-level slots used, 5 of 20 hit
  points, no hit die left, level 4. A Barbarian of level 3 saved without a maximum is
  restored to \<open>3 * 12\<close> hit points, and a record whose class is named \<^verbatim>\<open>constructor\<close> to none.
\<close>

theorem C1_applyLongRest_witness:
  "1 \<le> level tiredBard
   \<and> level tiredBard = 4
   \<and> hit_dice_remaining tiredBard = Some 0
   \<and> max_hit_points tiredBard = Some 20
   \<and> used_abilities tiredBard = Some [''x'']
   \<and> hit_points tiredBard = 5
   \<and> \<bar>(0::int) + max 1 (level tiredBard div 2)\<bar> \<le> 2 ^ 53
   \<and> applyLongRest tiredBard =
       Inr (tiredBard\<lparr>used_abilities := Some [], spell_slots_used := Some Map.empty,
              hit_points := 20, hit_dice_remaining := Some 2\<rparr>)
   \<and> 1 \<le> level legacyBarbarian
   \<and> max_hit_points legacyBarbarian = None
   \<and> hitDieOf legacyBarbarian = Some 12
   \<and> applyLongRest legacyBarbarian = Inr restedBarbarian
   \<and> 1 \<le> level inheritedNameClass
   \<and> max_hit_points inheritedNameClass = None
   \<and> hitDieOf inheritedNameClass = None
   \<and> applyLongRest inheritedNameClass = Inl NaN"
proof -
  have l: "1 \<le> level tiredBard" by (simp add: tired_facts)
  have r: "(0::int) = (case hit_dice_remaining tiredBard of Some n \<Rightarrow> n | None \<Rightarrow> level tiredBard)"
    by (simp add: tired_facts)
  have d: "(2::int) = min (level tiredBard) (js_add 0 (max 1 (level tiredBard div 2)))"
    by (simp add: tired_facts js_exact)
  have first: "applyLongRest tiredBard =
       Inr (tiredBard\<lparr>used_abilities := Some [], spell_slots_used := Some Map.empty,
              hit_points := 20, hit_dice_remaining := Some 2\<rparr>)"
    using C1_applyLongRest [OF l r d] by (simp add: tired_facts)
  have l2: "1 \<le> level legacyBarbarian" by (simp add: legacyBarbarian_facts)
  have r2: "(3::int) = (case hit_dice_remaining legacyBarbarian of
                         Some n \<Rightarrow> n | None \<Rightarrow> level legacyBarbarian)"
    by (simp add: legacyBarbarian_facts)
  have d2: "(3::int) = min (level legacyBarbarian) (js_add 3 (max 1 (level legacyBarbarian div 2)))"
    by (simp add: legacyBarbarian_facts js_exact)
  have die: "hitDieOf legacyBarbarian = Some 12"
    by (simp add: hitDieOf_table legacyBarbarian_facts)
  have second: "applyLongRest legacyBarbarian = Inr restedBarbarian"
    using C1_applyLongRest [OF l2 r2 d2] die
    by (simp add: legacyBarbarian_facts js_exact restedBarbarian_def)
  have l3: "1 \<le> level inheritedNameClass" by (simp add: inheritedNameClass_facts)
  have third: "applyLongRest inheritedNameClass = Inl NaN"
    using C1_applyLongRest [OF l3 refl refl] by (simp add: inheritedNameClass_facts)
  show ?thesis
    using l l2 l3 first second third die
    by (simp add: tired_facts legacyBarbarian_facts inheritedNameClass_facts)
qed

text \<open>
  A Barbarian of level 3 saved without a maximum of hit points ends the long rest with 36
  hit points and still no stored maximum, and so with more than the maximum of 24 that the
  sheet shows and clamps to.
\<close>

theorem C1_no_maximum_counterexample:
  "level legacyBarbarian = 3
   \<and> max_hit_points legacyBarbarian = None
   \<and> applyLongRest legacyBarbarian = Inr restedBarbarian
   \<and> hit_points restedBarbarian = 36
   \<and> max_hit_points restedBarbarian = None
   \<and> Some (hit_points restedBarbarian) \<noteq> max_hit_points restedBarbarian
   \<and> maxHit restedBarbarian = 24
   \<and> hit_points restedBarbarian \<noteq> maxHit restedBarbarian"
proof -
  have l: "1 \<le> level legacyBarbarian" by (simp add: legacyBarbarian_facts)
  have die: "hitDieOf legacyBarbarian = Some 12"
    by (simp add: hitDieOf_table legacyBarbarian_facts)
  have rest: "applyLongRest legacyBarbarian = Inr restedBarbarian"
    by (simp add: applyLongRest_fallback [OF l legacyBarbarian_facts(3) die]
          legacyBarbarian_facts js_exact restedBarbarian_def)
  have m: "maxHit restedBarbarian = 24"
    by (simp add: maxHit_def restedBarbarian_facts js_exact)
  show ?thesis using rest m by (simp add: legacyBarbarian_facts restedBarbarian_facts)
qed

section \<open>Spending a hit die\<close>











section \<open>Levelling up\<close>

lemma confirmLevelUp_Bard:
  assumes "class_name c = ''Bard''"
    and "ch = Average \<and> picked = 5 \<or> ch = Roll \<and> r = Some picked"
  shows "confirmLevelUp c ch r =
           Inr (c\<lparr>level := js_add (level c) 1,
                  hit_points := js_add (hit_points c)
                    (js_add picked (getAbilityModifier (constitution (ability_scores c)))),
                  max_hit_points :=
                    Some (js_add (case max_hit_points c of
                                    Some m \<Rightarrow> js_or m (hit_points c) | None \<Rightarrow> hit_points c)
                            (js_add picked
                               (getAbilityModifier (constitution (ability_scores c)))))\<rparr>)"
  using assms by (auto simp add: confirmLevelUp_def levelUpHpIncrease_def Let_def)

lemma confirmLevelUp_other:
  assumes "class_name c \<noteq> ''Bard''"
  shows "confirmLevelUp c ch r = Inr (c\<lparr>level := js_add (level c) 1\<rparr>)"
  using assms by (simp add: confirmLevelUp_def levelUpHpIncrease_def Let_def)

lemma confirmLevelUp_blocked:
  assumes "class_name c = ''Bard''"
  shows "confirmLevelUp c Roll None = Inl PleaseRollOrTakeAverage"
  using assms by (simp add: confirmLevelUp_def levelUpHpIncrease_def)

text \<open>
  Claim C6, as amended. Let the amount be 5 (half the d8 of a Bard plus one) for the average
  and the number rolled beforehand for a roll, plus the CON modifier, and let the base be the
  stored maximum of hit points, or the current hit points when no maximum (or 0) is stored.

  \<^item> For a class other than Bard the level goes up by one and nothing else changes.
  \<^item> For a Bard, the one class with hit-point growth, the level goes up by one, the hit
    points go up by the amount, and the maximum becomes the base plus the amount; so the
    maximum goes up by the amount when a maximum other than 0 is stored, and becomes the new
    hit points when none is stored. No other field is written.
  \<^item> For a Bard with the roll chosen and no number rolled, there is an alert and no update.
  \<^item> The result is a function of the character, the choice and the number rolled: the
    operation draws no random number.
  \<^item> The sums are sums of doubles, which are the exact sums when these are at most \<open>2 ^ 53\<close>
    in absolute value.
\<close>

theorem C6_confirmLevelUp:
  assumes "conMod = getAbilityModifier (constitution (ability_scores c))"
    and "base = (case max_hit_points c of
                   Some m \<Rightarrow> js_or m (hit_points c) | None \<Rightarrow> hit_points c)"
  shows "(class_name c \<noteq> ''Bard'' \<longrightarrow>
            confirmLevelUp c levelUpHPChoice levelUpHPRoll
              = Inr (c\<lparr>level := js_add (level c) 1\<rparr>))
       \<and> (class_name c = ''Bard'' \<and> levelUpHPChoice = Roll \<and> levelUpHPRoll = None \<longrightarrow>
            confirmLevelUp c levelUpHPChoice levelUpHPRoll = Inl PleaseRollOrTakeAverage)
       \<and> (\<forall>picked. class_name c = ''Bard''
              \<and> (levelUpHPChoice = Average \<and> picked = 5
                  \<or> levelUpHPChoice = Roll \<and> levelUpHPRoll = Some picked) \<longrightarrow>
            confirmLevelUp c levelUpHPChoice levelUpHPRoll =
              Inr (c\<lparr>level := js_add (level c) 1,
                     hit_points := js_add (hit_points c) (js_add picked conMod),
                     max_hit_points := Some (js_add base (js_add picked conMod))\<rparr>)
            \<and> (\<bar>picked + conMod\<bar> \<le> 2 ^ 53 \<and> \<bar>hit_points c + (picked + conMod)\<bar> \<le> 2 ^ 53
                \<and> \<bar>base + (picked + conMod)\<bar> \<le> 2 ^ 53 \<longrightarrow>
                 confirmLevelUp c levelUpHPChoice levelUpHPRoll =
                   Inr (c\<lparr>level := js_add (level c) 1,
                          hit_points := hit_points c + (picked + conMod),
                          max_hit_points := Some (base + (picked + conMod))\<rparr>))
            \<and> hitDieOf c = Some 8 \<and> (8::int) div 2 + 1 = 5)
       \<and> (\<bar>level c + 1\<bar> \<le> 2 ^ 53 \<longrightarrow> js_add (level c) 1 = level c + 1)
       \<and> (\<forall>m. max_hit_points c = Some m \<and> m \<noteq> 0 \<longrightarrow> base = m)
       \<and> (max_hit_points c = None \<or> max_hit_points c = Some 0 \<longrightarrow> base = hit_points c)"
proof -
  have other: "class_name c \<noteq> ''Bard'' \<longrightarrow>
            confirmLevelUp c levelUpHPChoice levelUpHPRoll
              = Inr (c\<lparr>level := js_add (level c) 1\<rparr>)"
    using confirmLevelUp_other by blast
  have blocked: "class_name c = ''Bard'' \<and> levelUpHPChoice = Roll \<and> levelUpHPRoll = None \<longrightarrow>
            confirmLevelUp c levelUpHPChoice levelUpHPRoll = Inl PleaseRollOrTakeAverage"
    using confirmLevelUp_blocked by blast
  have bard: "\<forall>picked. class_name c = ''Bard''
              \<and> (levelUpHPChoice = Average \<and> picked = 5
                  \<or> levelUpHPChoice = Roll \<and> levelUpHPRoll = Some picked) \<longrightarrow>
            confirmLevelUp c levelUpHPChoice levelUpHPRoll =
              Inr (c\<lparr>level := js_add (level c) 1,
                     hit_points := js_add (hit_points c) (js_add picked conMod),
                     max_hit_points := Some (js_add base (js_add picked conMod))\<rparr>)
            \<and> (\<bar>picked + conMod\<bar> \<le> 2 ^ 53 \<and> \<bar>hit_points c + (picked + conMod)\<bar> \<le> 2 ^ 53
                \<and> \<bar>base + (picked + conMod)\<bar> \<le> 2 ^ 53 \<longrightarrow>
                 confirmLevelUp c levelUpHPChoice levelUpHPRoll =
                   Inr (c\<lparr>level := js_add (level c) 1,
                          hit_points := hit_points c + (picked + conMod),
                          max_hit_points := Some (base + (picked + conMod))\<rparr>))
            \<and> hitDieOf c = Some 8 \<and> (8::int) div 2 + 1 = 5"
  proof (intro allI impI)
    fix picked
    assume h: "class_name c = ''Bard''
              \<and> (levelUpHPChoice = Average \<and> picked = 5
                  \<or> levelUpHPChoice = Roll \<and> levelUpHPRoll = Some picked)"
    then have b: "class_name c = ''Bard''"
      and p: "levelUpHPChoice = Average \<and> picked = 5
                  \<or> levelUpHPChoice = Roll \<and> levelUpHPRoll = Some picked"
      by simp_all
    have res: "confirmLevelUp c levelUpHPChoice levelUpHPRoll =
              Inr (c\<lparr>level := js_add (level c) 1,
                     hit_points := js_add (hit_points c) (js_add picked conMod),
                     max_hit_points := Some (js_add base (js_add picked conMod))\<rparr>)"
      unfolding assms by (rule confirmLevelUp_Bard [OF b p])
    have exact: "\<bar>picked + conMod\<bar> \<le> 2 ^ 53 \<and> \<bar>hit_points c + (picked + conMod)\<bar> \<le> 2 ^ 53
                \<and> \<bar>base + (picked + conMod)\<bar> \<le> 2 ^ 53 \<longrightarrow>
                 confirmLevelUp c levelUpHPChoice levelUpHPRoll =
                   Inr (c\<lparr>level := js_add (level c) 1,
                          hit_points := hit_points c + (picked + conMod),
                          max_hit_points := Some (base + (picked + conMod))\<rparr>)"
      unfolding res by (simp add: js_exact)
    have die: "hitDieOf c = Some 8" using b by (rule hitDieOf_table)
    have five: "(8::int) div 2 + 1 = 5" by simp
    show "confirmLevelUp c levelUpHPChoice levelUpHPRoll =
              Inr (c\<lparr>level := js_add (level c) 1,
                     hit_points := js_add (hit_points c) (js_add picked conMod),
                     max_hit_points := Some (js_add base (js_add picked conMod))\<rparr>)
            \<and> (\<bar>picked + conMod\<bar> \<le> 2 ^ 53 \<and> \<bar>hit_points c + (picked + conMod)\<bar> \<le> 2 ^ 53
                \<and> \<bar>base + (picked + conMod)\<bar> \<le> 2 ^ 53 \<longrightarrow>
                 confirmLevelUp c levelUpHPChoice levelUpHPRoll =
                   Inr (c\<lparr>level := js_add (level c) 1,
                          hit_points := hit_points c + (picked + conMod),
                          max_hit_points := Some (base + (picked + conMod))\<rparr>))
            \<and> hitDieOf c = Some 8 \<and> (8::int) div 2 + 1 = 5"
      by (intro conjI res exact die five)
  qed
  have lvl: "\<bar>level c + 1\<bar> \<le> 2 ^ 53 \<longrightarrow> js_add (level c) 1 = level c + 1"
    by (simp add: js_exact)
  have stored: "\<forall>m. max_hit_points c = Some m \<and> m \<noteq> 0 \<longrightarrow> base = m"
    by (simp add: assms(2) js_or_def)
  have missing: "max_hit_points c = None \<or> max_hit_points c = Some 0 \<longrightarrow> base = hit_points c"
    by (auto simp add: assms(2) js_or_def)
  show ?thesis by (intro conjI other blocked bard lvl stored missing)
qed

lemma sampleBard_facts:
  "class_name sampleBard = ''Bard''"
  "level sampleBard = 1"
  "hit_points sampleBard = 9"
  "max_hit_points sampleBard = Some 9"
  "getAbilityModifier (constitution (ability_scores sampleBard)) = 1"
  by (simp_all add: sampleBard_def sampleScores_def getAbilityModifier_div)

lemma fullGiantBard_facts:
  "class_name fullGiantBard = ''Bard''"
  "level fullGiantBard = 1"
  "hit_points fullGiantBard = 9007199254740992"
  "max_hit_points fullGiantBard = Some 9007199254740992"
  "getAbilityModifier (constitution (ability_scores fullGiantBard)) = 0"
  by (simp_all add: fullGiantBard_def giantBard_def sampleBard_def sampleScores_def
        getAbilityModifier_div)

text \<open>
  A first-level Bard with 9 of 9 hit points and a Constitution of 13: the average gives 15
  of 15 at level 2, a roll of 3 gives 13 of 13, and the roll chosen with no number rolled
  gives the alert. A Barbarian only gains the level. The Bard of level 3 saved with 5 hit
  points and no maximum ends with 11 of 11.
\<close>

theorem C6_confirmLevelUp_witness:
  "class_name sampleBard = ''Bard''
   \<and> level sampleBard = 1
   \<and> max_hit_points sampleBard = Some 9
   \<and> confirmLevelUp sampleBard Average None =
       Inr (sampleBard\<lparr>level := 2, hit_points := 15, max_hit_points := Some 15\<rparr>)
   \<and> confirmLevelUp sampleBard Roll (Some 3) =
       Inr (sampleBard\<lparr>level := 2, hit_points := 13, max_hit_points := Some 13\<rparr>)
   \<and> confirmLevelUp sampleBard Roll None = Inl PleaseRollOrTakeAverage
   \<and> class_name legacyBarbarian \<noteq> ''Bard''
   \<and> confirmLevelUp legacyBarbarian Average None = Inr (legacyBarbarian\<lparr>level := 4\<rparr>)
   \<and> max_hit_points legacyBard = None
   \<and> confirmLevelUp legacyBard Average None = Inr levelledLegacyBard"
proof -
  have avg: "confirmLevelUp sampleBard Average None =
       Inr (sampleBard\<lparr>level := 2, hit_points := 15, max_hit_points := Some 15\<rparr>)"
    using C6_confirmLevelUp [OF refl refl, of sampleBard Average None]
    by (simp add: sampleBard_facts js_exact js_or_def)
  have roll: "confirmLevelUp sampleBard Roll (Some 3) =
       Inr (sampleBard\<lparr>level := 2, hit_points := 13, max_hit_points := Some 13\<rparr>)"
    using C6_confirmLevelUp [OF refl refl, of sampleBard Roll "Some 3"]
    by (simp add: sampleBard_facts js_exact js_or_def)
  have blocked: "confirmLevelUp sampleBard Roll None = Inl PleaseRollOrTakeAverage"
    using C6_confirmLevelUp [OF refl refl, of sampleBard Roll None]
    by (simp add: sampleBard_facts)
  have other: "confirmLevelUp legacyBarbarian Average None = Inr (legacyBarbarian\<lparr>level := 4\<rparr>)"
    using C6_confirmLevelUp [OF refl refl, of legacyBarbarian Average None]
    by (simp add: legacyBarbarian_facts js_exact)
  have legacy: "confirmLevelUp legacyBard Average None = Inr levelledLegacyBard"
    using C6_confirmLevelUp [OF refl refl, of legacyBard Average None]
    by (simp add: legacyBard_facts js_exact levelledLegacyBard_def)
  show ?thesis
    using avg roll blocked other legacy
    by (simp add: sampleBard_facts legacyBarbarian_facts legacyBard_facts)
qed

text \<open>
  A Bard of level 3 saved with 5 hit points and no maximum has a maximum of 24 on the sheet.
  The level-up with the average, an amount of 6, stores a maximum of 11: the maximum does not
  go up by 6, it goes down by 13. And for a Bard with \<open>2 ^ 53\<close> of \<open>2 ^ 53\<close> hit points and an
  amount of 5 the sum \<open>2 ^ 53 + 5\<close> is rounded to \<open>2 ^ 53 + 4\<close>.
\<close>

theorem C6_no_maximum_counterexample:
  "class_name legacyBard = ''Bard''
   \<and> max_hit_points legacyBard = None
   \<and> maxHit legacyBard = 24
   \<and> getAbilityModifier (constitution (ability_scores legacyBard)) = 1
   \<and> confirmLevelUp legacyBard Average None = Inr levelledLegacyBard
   \<and> max_hit_points levelledLegacyBard = Some 11
   \<and> maxHit levelledLegacyBard = 11
   \<and> maxHit levelledLegacyBard \<noteq> maxHit legacyBard + (5 + 1)
   \<and> class_name fullGiantBard = ''Bard''
   \<and> hit_points fullGiantBard = 9007199254740992
   \<and> max_hit_points fullGiantBard = Some 9007199254740992
   \<and> getAbilityModifier (constitution (ability_scores fullGiantBard)) = 0
   \<and> confirmLevelUp fullGiantBard Average None =
       Inr (fullGiantBard\<lparr>level := 2, hit_points := 9007199254740996,
              max_hit_points := Some 9007199254740996\<rparr>)
   \<and> (9007199254740996::int) \<noteq> 9007199254740992 + (5 + 0)"
proof -
  have legacy: "confirmLevelUp legacyBard Average None = Inr levelledLegacyBard"
    by (simp add: confirmLevelUp_Bard [of legacyBard Average 5 None] legacyBard_facts
          js_exact levelledLegacyBard_def)
  have after: "max_hit_points levelledLegacyBard = Some 11" "maxHit levelledLegacyBard = 11"
    by (simp_all add: levelledLegacyBard_def maxHit_def)
  have sum: "js_add 9007199254740992 5 = 9007199254740996"
    by (simp add: js_add_def round53_eval)
  have giant: "confirmLevelUp fullGiantBard Average None =
       Inr (fullGiantBard\<lparr>level := 2, hit_points := 9007199254740996,
              max_hit_points := Some 9007199254740996\<rparr>)"
    by (simp add: confirmLevelUp_Bard [of fullGiantBard Average 5 None] fullGiantBard_facts
          js_exact js_or_def sum)
  show ?thesis
    using legacy after giant by (simp add: legacyBard_facts fullGiantBard_facts)
qed

section \<open>Death saves\<close>

lemma js_toggle_at_inside:
  assumes "0 \<le> i" and "i \<le> 4294967294" and "nat i < length arr"
  shows "js_toggle_at arr i = arr[nat i := Some (js_not (arr ! nat i))]"
  using assms by (simp add: js_toggle_at_def)

lemma js_toggle_at_beyond:
  assumes "0 \<le> i" and "i \<le> 4294967294" and "length arr \<le> nat i"
  shows "js_toggle_at arr i = arr @ replicate (nat i - length arr) None @ [Some True]"
    and "length (js_toggle_at arr i) = nat i + 1"
  using assms by (auto simp add: js_toggle_at_def)

lemma js_not_boolean: "v \<noteq> None \<Longrightarrow> Some (js_not v) = map_option Not v"
  by (cases v) (simp_all add: js_not_def)

lemma isBooleanArray_nth: "isBooleanArray arr \<Longrightarrow> n < length arr \<Longrightarrow> arr ! n \<noteq> None"
  by (simp add: isBooleanArray_def list_all_length)

lemma isBooleanArray_update:
  "isBooleanArray arr \<Longrightarrow> isBooleanArray (arr[n := Some b])"
  unfolding isBooleanArray_def list_all_iff
  by (metis insertE option.distinct(1) set_update_subset_insert subsetD)

lemma js_toggle_at_flip:
  assumes "0 \<le> i" and "i \<le> 4294967294" and "nat i < length arr" and "isBooleanArray arr"
  shows "js_toggle_at arr i = arr[nat i := map_option Not (arr ! nat i)]"
    and "length (js_toggle_at arr i) = length arr"
    and "isBooleanArray (js_toggle_at arr i)"
    and "js_toggle_at (js_toggle_at arr i) i = arr"
proof -
  have nn: "arr ! nat i \<noteq> None" by (rule isBooleanArray_nth [OF assms(4) assms(3)])
  show 1: "js_toggle_at arr i = arr[nat i := map_option Not (arr ! nat i)]"
    by (simp add: js_toggle_at_inside [OF assms(1,2,3)] js_not_boolean [OF nn])
  show "length (js_toggle_at arr i) = length arr"
    by (simp add: js_toggle_at_inside [OF assms(1,2,3)])
  show "isBooleanArray (js_toggle_at arr i)"
    by (simp add: js_toggle_at_inside [OF assms(1,2,3)] isBooleanArray_update [OF assms(4)])
  obtain b where b: "arr ! nat i = Some b" using nn by (cases "arr ! nat i") auto
  have "js_toggle_at (js_toggle_at arr i) i = arr[nat i := Some b]"
    using assms(1,2,3) by (simp add: js_toggle_at_def js_not_def b)
  then show "js_toggle_at (js_toggle_at arr i) i = arr"
    by (simp add: b [symmetric])
qed

lemma toggleDeathSave_update:
  "toggleDeathSave c Success i =
     c\<lparr>death_saves_success := Some (js_toggle_at (deathSaves c Success) i)\<rparr>"
  "toggleDeathSave c Failure i =
     c\<lparr>death_saves_failure := Some (js_toggle_at (deathSaves c Failure) i)\<rparr>"
  by (simp_all add: toggleDeathSave_def toggleDeathSaveSuccess_def toggleDeathSaveFailure_def
        deathSaves_def)

lemma deathSaves_toggle:
  "deathSaves (toggleDeathSave c kind i) k =
     (if k = kind then js_toggle_at (deathSaves c kind) i else deathSaves c k)"
  by (cases kind; cases k) (simp_all add: toggleDeathSave_update, simp_all add: deathSaves_def)

text \<open>
  Claim C10. Let both rows of death saves, read through the default of three times false,
  hold three booleans. Toggling the save of one kind at an index from 0 to 2 negates the
  boolean at that index of that row and leaves the other two as they are; the other row is
  the same; both rows still hold three booleans; the character returned differs from the
  given one in the field of that row only; and toggling the same save once more gives back
  the rows as they were.
\<close>

theorem C10_toggleDeathSave:
  assumes "0 \<le> i" and "i < 3" and "deathSavesOk c"
  shows "deathSaves (toggleDeathSave c kind i) kind ! nat i
           = map_option Not (deathSaves c kind ! nat i)
       \<and> (\<forall>j<3. j \<noteq> nat i \<longrightarrow>
             deathSaves (toggleDeathSave c kind i) kind ! j = deathSaves c kind ! j)
       \<and> (\<forall>k. k \<noteq> kind \<longrightarrow> deathSaves (toggleDeathSave c kind i) k = deathSaves c k)
       \<and> deathSavesOk (toggleDeathSave c kind i)
       \<and> toggleDeathSave c kind i =
           (case kind of
              Success \<Rightarrow> c\<lparr>death_saves_success := Some (deathSaves (toggleDeathSave c kind i) kind)\<rparr>
            | Failure \<Rightarrow> c\<lparr>death_saves_failure := Some (deathSaves (toggleDeathSave c kind i) kind)\<rparr>)
       \<and> (\<forall>k. deathSaves (toggleDeathSave (toggleDeathSave c kind i) kind i) k = deathSaves c k)"
proof -
  let ?arr = "deathSaves c kind"
  have len: "length ?arr = 3" and bool: "isBooleanArray ?arr"
    using assms(3) by (cases kind; simp add: deathSavesOk_def)+
  have inside: "nat i < length ?arr" using assms(1,2) len by simp
  have index: "i \<le> 4294967294" using assms(2) by simp
  note flip = js_toggle_at_flip [OF assms(1) index inside bool]
  have at: "deathSaves (toggleDeathSave c kind i) kind = ?arr[nat i := map_option Not (?arr ! nat i)]"
    by (simp add: deathSaves_toggle flip(1))
  have 1: "deathSaves (toggleDeathSave c kind i) kind ! nat i = map_option Not (?arr ! nat i)"
    using inside by (simp add: at)
  have 2: "\<forall>j<3. j \<noteq> nat i \<longrightarrow> deathSaves (toggleDeathSave c kind i) kind ! j = ?arr ! j"
    by (simp add: at)
  have 3: "\<forall>k. k \<noteq> kind \<longrightarrow> deathSaves (toggleDeathSave c kind i) k = deathSaves c k"
    by (simp add: deathSaves_toggle)
  have 4: "deathSavesOk (toggleDeathSave c kind i)"
    using assms(3) flip(2,3) len by (cases kind) (simp_all add: deathSavesOk_def deathSaves_toggle)
  have 5: "toggleDeathSave c kind i =
           (case kind of
              Success \<Rightarrow> c\<lparr>death_saves_success := Some (deathSaves (toggleDeathSave c kind i) kind)\<rparr>
            | Failure \<Rightarrow> c\<lparr>death_saves_failure := Some (deathSaves (toggleDeathSave c kind i) kind)\<rparr>)"
    by (cases kind) (simp_all add: deathSaves_toggle, simp_all add: toggleDeathSave_update)
  have 6: "\<forall>k. deathSaves (toggleDeathSave (toggleDeathSave c kind i) kind i) k = deathSaves c k"
    by (simp add: deathSaves_toggle flip(4))
  show ?thesis using 1 2 3 4 5 6 by blast
qed

text \<open>
  When both rows are stored, toggling twice gives back the very same character.
\<close>

lemma toggle_twice_stored:
  assumes "0 \<le> i" and "i < 3" and "deathSavesOk c"
    and "death_saves_success c \<noteq> None" and "death_saves_failure c \<noteq> None"
  shows "toggleDeathSave (toggleDeathSave c kind i) kind i = c"
proof -
  let ?d = "toggleDeathSave c kind i"
  have len: "length (deathSaves c kind) = 3" and bool: "isBooleanArray (deathSaves c kind)"
    using assms(3) by (cases kind; simp add: deathSavesOk_def)+
  have inside: "nat i < length (deathSaves c kind)" using assms(1,2) len by simp
  have index: "i \<le> 4294967294" using assms(2) by simp
  have again: "js_toggle_at (deathSaves ?d kind) i = deathSaves c kind"
    by (simp add: deathSaves_toggle js_toggle_at_flip(4) [OF assms(1) index inside bool])
  show ?thesis
  proof (cases kind)
    case Success
    have "toggleDeathSave ?d Success i = ?d\<lparr>death_saves_success := Some (deathSaves c Success)\<rparr>"
      using again unfolding Success by (simp only: toggleDeathSave_update)
    also have "\<dots> = c\<lparr>death_saves_success := Some (deathSaves c Success)\<rparr>"
      unfolding Success by (simp add: toggleDeathSave_update)
    also have "\<dots> = c" using assms(4) by (auto simp add: deathSaves_def)
    finally show ?thesis unfolding Success .
  next
    case Failure
    have "toggleDeathSave ?d Failure i = ?d\<lparr>death_saves_failure := Some (deathSaves c Failure)\<rparr>"
      using again unfolding Failure by (simp only: toggleDeathSave_update)
    also have "\<dots> = c\<lparr>death_saves_failure := Some (deathSaves c Failure)\<rparr>"
      unfolding Failure by (simp add: toggleDeathSave_update)
    also have "\<dots> = c" using assms(5) by (auto simp add: deathSaves_def)
    finally show ?thesis unfolding Failure .
  qed
qed

text \<open>
  A character without a stored row of successes: toggling the second success stores the
  row false, true, false, and toggling it again stores three times false.
\<close>

theorem C10_toggleDeathSave_witness:
  "(0::int) \<le> 1 \<and> (1::int) < 3 \<and> deathSavesOk dyingBard
   \<and> death_saves_success dyingBard = None
   \<and> death_saves_success (toggleDeathSave dyingBard Success 1)
       = Some [Some False, Some True, Some False]
   \<and> death_saves_failure (toggleDeathSave dyingBard Success 1) = death_saves_failure dyingBard
   \<and> deathSaves (toggleDeathSave (toggleDeathSave dyingBard Success 1) Success 1) Success
       = [Some False, Some False, Some False]"
proof -
  have ok: "deathSavesOk dyingBard"
    by (auto simp add: deathSavesOk_def deathSaves_def isBooleanArray_def dyingBard_def
          sampleBard_def)
  have rows: "deathSaves dyingBard Success = [Some False, Some False, Some False]"
    "death_saves_success dyingBard = None"
    by (simp_all add: deathSaves_def dyingBard_def sampleBard_def)
  have i: "(0::int) \<le> 1" "(1::int) < 3" by simp_all
  note inst = C10_toggleDeathSave [OF i ok, of Success]
  have eq: "toggleDeathSave dyingBard Success 1 =
     dyingBard\<lparr>death_saves_success := Some (deathSaves (toggleDeathSave dyingBard Success 1) Success)\<rparr>"
    using inst by simp
  have row: "deathSaves (toggleDeathSave dyingBard Success 1) Success = [Some False, Some True, Some False]"
    by (simp add: deathSaves_toggle rows js_toggle_at_def js_not_def)
  have a: "death_saves_success (toggleDeathSave dyingBard Success 1) = Some [Some False, Some True, Some False]"
    by (subst eq) (simp add: row)
  have b: "death_saves_failure (toggleDeathSave dyingBard Success 1) = death_saves_failure dyingBard"
    by (subst eq) simp
  have c: "deathSaves (toggleDeathSave (toggleDeathSave dyingBard Success 1) Success 1) Success
       = [Some False, Some False, Some False]"
    using inst rows(1) by simp
  show ?thesis using i ok rows(2) a b c by simp
qed

section \<open>Spell slots\<close>

lemma pad_false_replicate:
  "pad_false arr maxSlots = arr @ replicate (nat (maxSlots - int (length arr))) (Some False)"
proof (induction arr maxSlots rule: pad_false.induct)
  case (1 arr maxSlots)
  show ?case
  proof (cases "int (length arr) < maxSlots")
    case True
    then have "nat (maxSlots - int (length arr)) = Suc (nat (maxSlots - int (length (arr @ [Some False]))))"
      by simp
    with True "1.IH" show ?thesis
      by (subst pad_false.simps) (simp add: replicate_app_Cons_same)
  next
    case False
    then show ?thesis by (subst pad_false.simps) simp
  qed
qed

lemma js_Array_fill_pad:
  assumes "0 \<le> n" and "n \<le> 4294967295"
  shows "js_Array_fill_false n = Inr (replicate (nat n) (Some False))"
    and "pad_false (replicate (nat n) (Some False)) n = replicate (nat n) (Some False)"
  using assms by (simp_all add: js_Array_fill_false_def pad_false_replicate)

lemma toggleSpellSlot_result:
  assumes "key = js_String lvl"
    and "existing = (case spell_slots_used c of Some m \<Rightarrow> m | None \<Rightarrow> Map.empty)"
    and "maxCount = resolveMaxSlots c lvl"
    and "stored = (case existing key of Some a \<Rightarrow> a | None \<Rightarrow> [])"
    and "padded = stored @ replicate (nat (maxCount - int (length stored))) (Some False)"
    and "0 \<le> maxCount \<or> existing key \<noteq> None"
    and "maxCount \<le> 4294967295"
  shows "toggleSpellSlot c lvl slotIndex =
           Inr (c\<lparr>spell_slots_used := Some (existing(key \<mapsto> js_toggle_at padded slotIndex))\<rparr>)"
proof (cases "existing key")
  case None
  with assms(6) have n: "0 \<le> maxCount" by simp
  have "padded = replicate (nat maxCount) (Some False)"
    using None by (simp add: assms(4,5))
  then show ?thesis
    using None n assms(7) unfolding toggleSpellSlot_def Let_def assms(1-3)[symmetric]
    by (simp add: js_Array_fill_pad js_pad_false_def)
next
  case (Some a)
  then have "padded = pad_false a maxCount"
    by (simp add: assms(4,5) pad_false_replicate)
  then show ?thesis
    using Some assms(7) unfolding toggleSpellSlot_def Let_def assms(1-3)[symmetric]
    by (simp add: js_pad_false_def)
qed

lemma toggleSpellSlot_throws:
  assumes "resolveMaxSlots c lvl < 0
           \<and> (case spell_slots_used c of Some m \<Rightarrow> m | None \<Rightarrow> Map.empty) (js_String lvl) = None
           \<or> 4294967295 < resolveMaxSlots c lvl"
  shows "toggleSpellSlot c lvl slotIndex = Inl RangeError"
  using assms
  by (auto simp add: toggleSpellSlot_def Let_def js_Array_fill_false_def js_pad_false_def
        split: option.split)

lemma map_upd_differs:
  assumes "length new \<noteq> length (case existing key of Some a \<Rightarrow> a | None \<Rightarrow> [])
           \<or> existing key = None"
  shows "existing(key \<mapsto> new) \<noteq> existing"
proof
  assume "existing(key \<mapsto> new) = existing"
  then have "(existing(key \<mapsto> new)) key = existing key" by simp
  then have "existing key = Some new" by simp
  with assms show False by simp
qed

text \<open>
  Claim C2, as amended. The slot count of a level is the declared count
  \<^verbatim>\<open>spell_slots[level - 1]\<close> when there is one, and otherwise 2 for the first level of a
  Bard of level 1 or more and 0 for anything else. There is no range check on the slot
  index.

  \<^item> When the count is at most \<open>2 ^ 32 - 1\<close>, the largest length of an array, and is not
    negative or a used-array is stored for the level: the used-array of the level (the stored
    one, or an empty one) is padded with false up to the count, the element at the slot index
    is toggled, and the array is stored for the level; no other field and no other level's
    array changes. For a slot index from 0 up to the count less one, the toggle negates the
    boolean at the index, a hole in the stored array counting as false. For a slot index that
    is at or beyond both the count and the length of the stored array, and at most
    \<open>2 ^ 32 - 2\<close>, the largest index of an array, the toggle extends the array up to the index
    and writes true there, so that the character is changed. For a slot index that is
    negative or above \<open>2 ^ 32 - 2\<close> the toggle leaves the padded array as it is.
  \<^item> When the count is negative and no used-array is stored for the level, or the count is
    above \<open>2 ^ 32 - 1\<close>, the operation throws a RangeError for every slot index, and nothing is
    stored.
\<close>

theorem C2_toggleSpellSlot:
  assumes "key = js_String lvl"
    and "existing = (case spell_slots_used c of Some m \<Rightarrow> m | None \<Rightarrow> Map.empty)"
    and "maxCount = resolveMaxSlots c lvl"
    and "stored = (case existing key of Some a \<Rightarrow> a | None \<Rightarrow> [])"
    and "padded = stored @ replicate (nat (maxCount - int (length stored))) (Some False)"
    and "fallback = (if lvl = 1 \<and> class_name c = ''Bard'' \<and> level c \<ge> 1 then 2 else 0)"
  shows "maxCount =
           (case spell_slots c of
              Some slots \<Rightarrow>
                if 1 \<le> lvl \<and> lvl \<le> int (length slots) then slots ! nat (lvl - 1) else fallback
            | None \<Rightarrow> fallback)
       \<and> (0 \<le> slotIndex \<and> slotIndex < maxCount \<and> maxCount \<le> 4294967295 \<longrightarrow>
            maxCount \<le> int (length padded)
          \<and> toggleSpellSlot c lvl slotIndex =
              Inr (c\<lparr>spell_slots_used :=
                     Some (existing(key \<mapsto>
                       padded[nat slotIndex := Some (js_not (padded ! nat slotIndex))]))\<rparr>)
          \<and> (isBooleanArray stored \<longrightarrow>
                Some (js_not (padded ! nat slotIndex)) = map_option Not (padded ! nat slotIndex)))
       \<and> (maxCount \<le> slotIndex \<and> int (length stored) \<le> slotIndex \<and> slotIndex \<le> 4294967294
            \<and> (0 \<le> maxCount \<or> existing key \<noteq> None) \<longrightarrow>
            toggleSpellSlot c lvl slotIndex =
              Inr (c\<lparr>spell_slots_used :=
                     Some (existing(key \<mapsto>
                       padded @ replicate (nat slotIndex - length padded) None @ [Some True]))\<rparr>)
          \<and> toggleSpellSlot c lvl slotIndex \<noteq> Inr c)
       \<and> ((slotIndex < 0 \<or> 4294967294 < slotIndex)
            \<and> (0 \<le> maxCount \<or> existing key \<noteq> None) \<and> maxCount \<le> 4294967295 \<longrightarrow>
            toggleSpellSlot c lvl slotIndex =
              Inr (c\<lparr>spell_slots_used := Some (existing(key \<mapsto> padded))\<rparr>))
       \<and> ((0 \<le> maxCount \<or> existing key \<noteq> None) \<and> maxCount \<le> 4294967295 \<longrightarrow>
            toggleSpellSlot c lvl slotIndex =
              Inr (c\<lparr>spell_slots_used :=
                     Some (existing(key \<mapsto> js_toggle_at padded slotIndex))\<rparr>))
       \<and> (maxCount < 0 \<and> existing key = None \<or> 4294967295 < maxCount \<longrightarrow>
            toggleSpellSlot c lvl slotIndex = Inl RangeError)"
proof (intro conjI impI)
  show "maxCount =
           (case spell_slots c of
              Some slots \<Rightarrow>
                if 1 \<le> lvl \<and> lvl \<le> int (length slots) then slots ! nat (lvl - 1) else fallback
            | None \<Rightarrow> fallback)"
    unfolding assms(3,6) resolveMaxSlots_def Let_def
    by (cases "spell_slots c") auto
next
  assume r: "0 \<le> slotIndex \<and> slotIndex < maxCount \<and> maxCount \<le> 4294967295"
  show len: "maxCount \<le> int (length padded)" by (simp add: assms(5))
  have inside: "nat slotIndex < length padded" using r len by linarith
  have ok: "0 \<le> maxCount \<or> existing key \<noteq> None" using r by simp
  have limit: "maxCount \<le> 4294967295" using r by simp
  have index: "slotIndex \<le> 4294967294" using r by simp
  show "toggleSpellSlot c lvl slotIndex =
              Inr (c\<lparr>spell_slots_used :=
                     Some (existing(key \<mapsto>
                       padded[nat slotIndex := Some (js_not (padded ! nat slotIndex))]))\<rparr>)"
    using r inside index
    by (simp add: toggleSpellSlot_result [OF assms(1-5) ok limit] js_toggle_at_inside)
  assume "isBooleanArray stored"
  then have "isBooleanArray padded"
    by (auto simp add: assms(5) isBooleanArray_def list_all_iff)
  then show "Some (js_not (padded ! nat slotIndex)) = map_option Not (padded ! nat slotIndex)"
    using inside by (intro js_not_boolean isBooleanArray_nth)
next
  assume r: "maxCount \<le> slotIndex \<and> int (length stored) \<le> slotIndex
            \<and> slotIndex \<le> 4294967294 \<and> (0 \<le> maxCount \<or> existing key \<noteq> None)"
  then have ok: "0 \<le> maxCount \<or> existing key \<noteq> None" by simp
  have limit: "maxCount \<le> 4294967295" using r by simp
  have index: "slotIndex \<le> 4294967294" using r by simp
  have plen: "int (length padded) \<le> slotIndex" using r by (auto simp add: assms(5))
  then have nonneg: "0 \<le> slotIndex" and beyond: "length padded \<le> nat slotIndex" by linarith+
  let ?new = "padded @ replicate (nat slotIndex - length padded) None @ [Some True]"
  show eq: "toggleSpellSlot c lvl slotIndex =
              Inr (c\<lparr>spell_slots_used := Some (existing(key \<mapsto> ?new))\<rparr>)"
    by (simp add: toggleSpellSlot_result [OF assms(1-5) ok limit]
          js_toggle_at_beyond(1) [OF nonneg index beyond])
  have "length ?new = nat slotIndex + 1" using beyond by simp
  moreover have "length stored \<le> nat slotIndex" using r nonneg by linarith
  ultimately have "length ?new \<noteq> length stored" by simp
  then have differs: "existing(key \<mapsto> ?new) \<noteq> existing"
    unfolding assms(4) by (intro map_upd_differs) simp
  have "spell_slots_used (c\<lparr>spell_slots_used := Some (existing(key \<mapsto> ?new))\<rparr>)
          \<noteq> spell_slots_used c"
    using differs by (cases "spell_slots_used c") (simp_all add: assms(2))
  then have "c\<lparr>spell_slots_used := Some (existing(key \<mapsto> ?new))\<rparr> \<noteq> c" by metis
  then show "toggleSpellSlot c lvl slotIndex \<noteq> Inr c" by (simp add: eq)
next
  assume r: "(slotIndex < 0 \<or> 4294967294 < slotIndex)
            \<and> (0 \<le> maxCount \<or> existing key \<noteq> None) \<and> maxCount \<le> 4294967295"
  then have ok: "0 \<le> maxCount \<or> existing key \<noteq> None" and limit: "maxCount \<le> 4294967295"
    by simp_all
  show "toggleSpellSlot c lvl slotIndex =
          Inr (c\<lparr>spell_slots_used := Some (existing(key \<mapsto> padded))\<rparr>)"
    using r by (simp add: toggleSpellSlot_result [OF assms(1-5) ok limit] js_toggle_at_def)
next
  assume r: "(0 \<le> maxCount \<or> existing key \<noteq> None) \<and> maxCount \<le> 4294967295"
  then have ok: "0 \<le> maxCount \<or> existing key \<noteq> None" and limit: "maxCount \<le> 4294967295"
    by simp_all
  show "toggleSpellSlot c lvl slotIndex =
          Inr (c\<lparr>spell_slots_used := Some (existing(key \<mapsto> js_toggle_at padded slotIndex))\<rparr>)"
    by (rule toggleSpellSlot_result [OF assms(1-5) ok limit])
next
  assume "maxCount < 0 \<and> existing key = None \<or> 4294967295 < maxCount"
  then show "toggleSpellSlot c lvl slotIndex = Inl RangeError"
    unfolding assms(1-3) by (intro toggleSpellSlot_throws) simp
qed

text \<open>
  The example of the claim: two declared first-level slots, no record of used slots, and the
  second slot toggled.
\<close>

lemma fresh_facts:
  "js_String 1 = ''1''"
  "spell_slots_used freshCaster = None"
  "resolveMaxSlots freshCaster 1 = 2"
  "spell_slots freshCaster = Some [2]"
  "class_name freshCaster = ''Bard''"
  "level freshCaster = 1"
  by (simp_all add: js_String_def digits_of_nat.simps digit_char_def freshCaster_def
        sampleBard_def resolveMaxSlots_def)

lemma countlessSlots_facts:
  "spell_slots_used countlessSlots = None"
  "resolveMaxSlots countlessSlots 1 = 4294967296"
  "spell_slots countlessSlots = Some [4294967296]"
  "class_name countlessSlots = ''Bard''"
  "level countlessSlots = 1"
  by (simp_all add: countlessSlots_def sampleBard_def resolveMaxSlots_def)

lemma negativeSlots_facts:
  "spell_slots_used negativeSlots = None"
  "resolveMaxSlots negativeSlots 1 = - 1"
  "spell_slots negativeSlots = Some [- 1]"
  "class_name negativeSlots = ''Bard''"
  "level negativeSlots = 1"
  by (simp_all add: negativeSlots_def sampleBard_def resolveMaxSlots_def)

theorem C2_toggleSpellSlot_witness:
  "(0::int) \<le> 1 \<and> 1 < resolveMaxSlots freshCaster 1
   \<and> spell_slots freshCaster = Some [2]
   \<and> spell_slots_used freshCaster = None
   \<and> toggleSpellSlot freshCaster 1 1 =
       Inr (freshCaster\<lparr>spell_slots_used := Some [''1'' \<mapsto> [Some False, Some True]]\<rparr>)
   \<and> resolveMaxSlots freshCaster 1 \<le> 3
   \<and> toggleSpellSlot freshCaster 1 3 =
       Inr (freshCaster\<lparr>spell_slots_used :=
              Some [''1'' \<mapsto> [Some False, Some False, None, Some True]]\<rparr>)
   \<and> toggleSpellSlot freshCaster 1 (- 1) =
       Inr (freshCaster\<lparr>spell_slots_used := Some [''1'' \<mapsto> [Some False, Some False]]\<rparr>)
   \<and> toggleSpellSlot freshCaster 1 4294967295 =
       Inr (freshCaster\<lparr>spell_slots_used := Some [''1'' \<mapsto> [Some False, Some False]]\<rparr>)
   \<and> spell_slots negativeSlots = Some [- 1]
   \<and> spell_slots_used negativeSlots = None
   \<and> resolveMaxSlots negativeSlots 1 < 0
   \<and> toggleSpellSlot negativeSlots 1 0 = Inl RangeError
   \<and> spell_slots countlessSlots = Some [4294967296]
   \<and> 4294967295 < resolveMaxSlots countlessSlots 1
   \<and> toggleSpellSlot countlessSlots 1 0 = Inl RangeError"
proof -
  have inside: "toggleSpellSlot freshCaster 1 1 =
       Inr (freshCaster\<lparr>spell_slots_used := Some [''1'' \<mapsto> [Some False, Some True]]\<rparr>)"
    using C2_toggleSpellSlot [of "''1''" 1 Map.empty freshCaster 2 "[]" "[Some False, Some False]" 2 1]
    by (simp add: fresh_facts js_not_def numeral_2_eq_2)
  have beyond: "toggleSpellSlot freshCaster 1 3 =
       Inr (freshCaster\<lparr>spell_slots_used :=
              Some [''1'' \<mapsto> [Some False, Some False, None, Some True]]\<rparr>)"
  proof -
    have r: "replicate (nat 3 - length [Some False, Some False]) (None :: bool option) = [None]"
      by simp
    have two: "replicate 2 (Some False) = [Some False, Some False]"
      by (simp add: numeral_2_eq_2)
    have p: "[Some False, Some False] =
               [] @ replicate (nat (2 - int (length ([] :: bool option list)))) (Some False)"
      by (simp add: two)
    have k: "''1'' = js_String 1" by (simp add: fresh_facts)
    have e: "Map.empty = (case spell_slots_used freshCaster of
                            Some m \<Rightarrow> m | None \<Rightarrow> Map.empty)"
      by (simp add: fresh_facts)
    have m: "2 = resolveMaxSlots freshCaster 1" by (simp add: fresh_facts)
    have s: "[] = (case (Map.empty :: string \<rightharpoonup> bool option list) ''1'' of
                     Some a \<Rightarrow> a | None \<Rightarrow> [])"
      by simp
    have f: "(2::int) = (if (1::int) = 1 \<and> class_name freshCaster = ''Bard''
                            \<and> level freshCaster \<ge> 1 then 2 else 0)"
      by (simp add: fresh_facts)
    from C2_toggleSpellSlot [OF k e m s p f, of 3]
    have "toggleSpellSlot freshCaster 1 3 =
            Inr (freshCaster\<lparr>spell_slots_used :=
                   Some (Map.empty(''1'' \<mapsto>
                     [Some False, Some False]
                     @ replicate (nat 3 - length [Some False, Some False]) None
                     @ [Some True]))\<rparr>)"
      by simp
    then show ?thesis unfolding r by simp
  qed
  have negative: "toggleSpellSlot freshCaster 1 (- 1) =
       Inr (freshCaster\<lparr>spell_slots_used := Some [''1'' \<mapsto> [Some False, Some False]]\<rparr>)"
    using C2_toggleSpellSlot [of "''1''" 1 Map.empty freshCaster 2 "[]" "[Some False, Some False]" 2 "- 1"]
    by (simp add: fresh_facts numeral_2_eq_2)
  have outside: "toggleSpellSlot freshCaster 1 4294967295 =
       Inr (freshCaster\<lparr>spell_slots_used := Some [''1'' \<mapsto> [Some False, Some False]]\<rparr>)"
    using C2_toggleSpellSlot
      [of "''1''" 1 Map.empty freshCaster 2 "[]" "[Some False, Some False]" 2 4294967295]
    by (simp add: fresh_facts numeral_2_eq_2)
  have limit: "toggleSpellSlot countlessSlots 1 0 = Inl RangeError"
    using C2_toggleSpellSlot
      [OF refl refl refl refl refl refl, where c = countlessSlots and lvl = 1 and slotIndex = 0,
       THEN conjunct2, THEN conjunct2, THEN conjunct2, THEN conjunct2, THEN conjunct2]
    by (simp add: countlessSlots_facts)
  have throws: "toggleSpellSlot negativeSlots 1 0 = Inl RangeError"
    using C2_toggleSpellSlot [of "''1''" 1 Map.empty negativeSlots "- 1" "[]" "[]" 2 0]
    by (simp add: fresh_facts negativeSlots_facts)
  show ?thesis
    using inside beyond negative outside throws limit
    by (simp add: fresh_facts negativeSlots_facts countlessSlots_facts)
qed

text \<open>
  The claim as stated fails: with two first-level slots, the index 2 is outside the range
  from 0 to 1, and toggling it adds a third, used slot.
\<close>

theorem C2_out_of_range_counterexample:
  "resolveMaxSlots freshCaster 1 = 2
   \<and> \<not> (0 \<le> (2::int) \<and> 2 \<le> resolveMaxSlots freshCaster 1 - 1)
   \<and> toggleSpellSlot freshCaster 1 2 =
       Inr (freshCaster\<lparr>spell_slots_used :=
              Some [''1'' \<mapsto> [Some False, Some False, Some True]]\<rparr>)
   \<and> toggleSpellSlot freshCaster 1 2 \<noteq> Inr freshCaster"
proof -
  have two: "replicate 2 (Some False) = [Some False, Some False]"
    by (simp add: numeral_2_eq_2)
  have eq: "toggleSpellSlot freshCaster 1 2 =
       Inr (freshCaster\<lparr>spell_slots_used :=
              Some [''1'' \<mapsto> [Some False, Some False, Some True]]\<rparr>)"
    using toggleSpellSlot_result
      [of "''1''" 1 Map.empty freshCaster 2 "[]" "[Some False, Some False]" 2]
    by (simp add: fresh_facts js_toggle_at_def two)
  have "toggleSpellSlot freshCaster 1 2 \<noteq> Inr freshCaster"
  proof
    assume "toggleSpellSlot freshCaster 1 2 = Inr freshCaster"
    with eq have "freshCaster\<lparr>spell_slots_used :=
              Some [''1'' \<mapsto> [Some False, Some False, Some True]]\<rparr> = freshCaster"
      by simp
    then have "spell_slots_used (freshCaster\<lparr>spell_slots_used :=
              Some [''1'' \<mapsto> [Some False, Some False, Some True]]\<rparr>)
               = spell_slots_used freshCaster"
      by (rule arg_cong)
    then show False by (simp add: fresh_facts)
  qed
  then show ?thesis by (simp add: eq fresh_facts)
qed

section \<open>Point buy\<close>

lemma int_interval_first: "s \<le> n \<Longrightarrow> {s..n} = insert s {s + 1..n}" for s n :: int
  by auto

lemma sum_int_interval_first:
  "s \<le> n \<Longrightarrow> (\<Sum>t = s..n. f t) = f s + (\<Sum>t = s + 1..n. f t)" for s n :: int
  by (simp add: int_interval_first [of s n])

lemma pointBuyLoop_sum:
  "pointBuyLoop score s cost
     = cost + (\<Sum>t = s..score. case pointBuyTable t of Some c \<Rightarrow> c | None \<Rightarrow> 0)"
proof (induction score s cost rule: pointBuyLoop.induct)
  case (1 score s cost)
  show ?case
  proof (cases "s \<le> score")
    case True
    with "1.IH" show ?thesis
      by (subst pointBuyLoop.simps) (simp add: sum_int_interval_first [OF True])
  next
    case False
    then show ?thesis by (subst pointBuyLoop.simps) simp
  qed
qed

lemma pointBuyCostFor_sum:
  "pointBuyCostFor s = (\<Sum>t = 9..s. case pointBuyTable t of Some c \<Rightarrow> c | None \<Rightarrow> 0)"
  by (simp add: pointBuyCostFor_def pointBuyLoop_sum)

lemma pointBuyTable_values:
  "9 \<le> t \<and> t \<le> 13 \<Longrightarrow> pointBuyTable t = Some 1"
  "14 \<le> t \<and> t \<le> 15 \<Longrightarrow> pointBuyTable t = Some 2"
  "t < 9 \<or> 15 < t \<Longrightarrow> pointBuyTable t = None"
proof -
  assume "9 \<le> t \<and> t \<le> 13"
  then have "t = 9 \<or> t = 10 \<or> t = 11 \<or> t = 12 \<or> t = 13" by arith
  then show "pointBuyTable t = Some 1" by (auto simp add: pointBuyTable_def)
next
  assume "14 \<le> t \<and> t \<le> 15"
  then have "t = 14 \<or> t = 15" by arith
  then show "pointBuyTable t = Some 2" by (auto simp add: pointBuyTable_def)
next
  assume "t < 9 \<or> 15 < t"
  then show "pointBuyTable t = None" by (auto simp add: pointBuyTable_def)
qed

lemma pointBuyCostFor_values:
  "pointBuyCostFor 8 = 0" "pointBuyCostFor 9 = 1" "pointBuyCostFor 10 = 2"
  "pointBuyCostFor 11 = 3" "pointBuyCostFor 12 = 4" "pointBuyCostFor 13 = 5"
  "pointBuyCostFor 14 = 7" "pointBuyCostFor 15 = 9"
  by (simp_all add: pointBuyCostFor_def pointBuyLoop.simps pointBuyTable_def)

lemma foldl_plus: "foldl (\<lambda>s v. s + f v) a xs = a + sum_list (map f xs)" for a :: int
  by (induction xs arbitrary: a) simp_all

lemma pointBuyTotal_sum:
  "pointBuyTotal scores = sum_list (map (\<lambda>(k, v). pointBuyCostFor v) scores)"
  by (simp add: pointBuyTotal_def foldl_plus comp_def case_prod_unfold)

lemma validateAbilities_PointBuy:
  assumes "abilityMethod form = PointBuy"
  shows "fst (validateAbilities form) = (pointBuyTotal (pointBuyScores form) \<le> 27)"
    and "creationTab (goNextFromAbilities form)
           = (if pointBuyTotal (pointBuyScores form) \<le> 27 then ReviewTab else AbilitiesTab)"
  using assms by (auto simp add: validateAbilities_def validationFails_def goNextFromAbilities_def)

text \<open>
  Claim C8. The point-buy cost of a score \<open>s\<close> is the sum, over the steps \<open>t\<close> from 9 to
  \<open>s\<close>, of the cost of the step, which is 1 for the steps 9 to 13 and 2 for the steps 14
  and 15 (a step outside the table costs nothing); so the scores 8, 13 and 15 cost 0, 5
  and 9. With point buy as the method, the Abilities tab is valid if and only if the costs
  of the scores add up to at most 27, and going on from it leads to the Review tab then and
  stays on the Abilities tab otherwise.
\<close>

theorem C8_pointBuy:
  "pointBuyCostFor s = (\<Sum>t = 9..s. case pointBuyTable t of Some c \<Rightarrow> c | None \<Rightarrow> 0)
   \<and> (\<forall>t. 9 \<le> t \<and> t \<le> 13 \<longrightarrow> pointBuyTable t = Some 1)
   \<and> (\<forall>t. 14 \<le> t \<and> t \<le> 15 \<longrightarrow> pointBuyTable t = Some 2)
   \<and> pointBuyCostFor 8 = 0 \<and> pointBuyCostFor 13 = 5 \<and> pointBuyCostFor 15 = 9
   \<and> (abilityMethod form = PointBuy \<longrightarrow>
         fst (validateAbilities form)
           = (sum_list (map (\<lambda>(k, v). pointBuyCostFor v) (pointBuyScores form)) \<le> 27)
       \<and> creationTab (goNextFromAbilities form)
           = (if sum_list (map (\<lambda>(k, v). pointBuyCostFor v) (pointBuyScores form)) \<le> 27
              then ReviewTab else AbilitiesTab))"
proof (intro conjI allI impI)
  show "pointBuyCostFor s = (\<Sum>t = 9..s. case pointBuyTable t of Some c \<Rightarrow> c | None \<Rightarrow> 0)"
    by (rule pointBuyCostFor_sum)
  show "pointBuyCostFor 8 = 0" "pointBuyCostFor 13 = 5" "pointBuyCostFor 15 = 9"
    by (rule pointBuyCostFor_values)+
next
  fix t :: int assume "9 \<le> t \<and> t \<le> 13"
  then show "pointBuyTable t = Some 1" by (rule pointBuyTable_values)
next
  fix t :: int assume "14 \<le> t \<and> t \<le> 15"
  then show "pointBuyTable t = Some 2" by (rule pointBuyTable_values)
next
  assume m: "abilityMethod form = PointBuy"
  show "fst (validateAbilities form)
           = (sum_list (map (\<lambda>(k, v). pointBuyCostFor v) (pointBuyScores form)) \<le> 27)"
    using validateAbilities_PointBuy(1) [OF m] by (simp only: pointBuyTotal_sum)
  show "creationTab (goNextFromAbilities form)
           = (if sum_list (map (\<lambda>(k, v). pointBuyCostFor v) (pointBuyScores form)) \<le> 27
              then ReviewTab else AbilitiesTab)"
    using validateAbilities_PointBuy(2) [OF m] by (simp only: pointBuyTotal_sum)
qed

text \<open>
  The scores 15, 14, 13, 12, 10 and 8 cost 27 points and pass; the scores 15, 15, 15, 9, 8
  and 8 cost 28 points and are held back.
\<close>

lemma form_facts:
  "abilityMethod pointBuyForm = PointBuy"
  "abilityMethod overspentForm = PointBuy"
  "sum_list (map (\<lambda>(k, v). pointBuyCostFor v) (pointBuyScores pointBuyForm)) = 27"
  "sum_list (map (\<lambda>(k, v). pointBuyCostFor v) (pointBuyScores overspentForm)) = 28"
  by (simp_all add: pointBuyForm_def overspentForm_def pointBuyCostFor_values)

theorem C8_pointBuy_witness:
  "abilityMethod pointBuyForm = PointBuy
   \<and> sum_list (map (\<lambda>(k, v). pointBuyCostFor v) (pointBuyScores pointBuyForm)) = 27
   \<and> fst (validateAbilities pointBuyForm)
   \<and> creationTab (goNextFromAbilities pointBuyForm) = ReviewTab
   \<and> abilityMethod overspentForm = PointBuy
   \<and> sum_list (map (\<lambda>(k, v). pointBuyCostFor v) (pointBuyScores overspentForm)) = 28
   \<and> \<not> fst (validateAbilities overspentForm)
   \<and> creationTab (goNextFromAbilities overspentForm) = AbilitiesTab"
  using C8_pointBuy [of 15 pointBuyForm] C8_pointBuy [of 15 overspentForm]
  by (simp add: form_facts)

section \<open>The standard array\<close>

lemma standardOptions_unused:
  assumes "v \<in> set (standardOptions assigned key)" and "standardInv (map_of assigned)"
  shows "v \<in> set STANDARD_ARRAY"
    and "k' \<noteq> key \<Longrightarrow> map_of assigned k' \<noteq> Some v"
proof -
  let ?used = "map snd (filter (\<lambda>(k, v). k \<noteq> key) assigned)"
  from assms(1) show std: "v \<in> set STANDARD_ARRAY"
    by (simp add: standardOptions_def Let_def)
  then have nz: "v \<noteq> 0" by (auto simp add: STANDARD_ARRAY_def)
  from assms(1) have free: "v \<notin> set ?used \<or> map_of assigned key = Some v"
    by (simp add: standardOptions_def Let_def)
  assume other: "k' \<noteq> key"
  show "map_of assigned k' \<noteq> Some v"
  proof
    assume held: "map_of assigned k' = Some v"
    then have "(k', v) \<in> set assigned" by (rule map_of_SomeD)
    with other have "v \<in> set ?used" by force
    with free have "map_of assigned key = Some v" by simp
    with held nz assms(2) have "k' = key" unfolding standardInv_def by blast
    with other show False by simp
  qed
qed

lemma standardInv_select:
  assumes "standardInv (map_of assigned)" and "key \<in> set ability_keys"
    and "v = 0 \<or> v \<in> set (standardOptions assigned key)"
  shows "standardInv (map_of (selectStandard assigned key v))"
proof -
  have m: "map_of (selectStandard assigned key v) = (map_of assigned)(key \<mapsto> v)"
    by (simp add: selectStandard_def update_conv')
  have range: "v = 0 \<or> v \<in> set STANDARD_ARRAY"
    using assms(3) standardOptions_unused(1) [OF _ assms(1)] by blast
  have fresh: "v \<noteq> 0 \<Longrightarrow> k' \<noteq> key \<Longrightarrow> map_of assigned k' \<noteq> Some v" for k'
    using assms(3) standardOptions_unused(2) [OF _ assms(1)] by blast
  show ?thesis
    unfolding m standardInv_def
  proof (rule conjI; intro allI impI)
    fix k w assume "((map_of assigned)(key \<mapsto> v)) k = Some w"
    then show "k \<in> set ability_keys \<and> (w = 0 \<or> w \<in> set STANDARD_ARRAY)"
      using assms(1,2) range unfolding standardInv_def by (cases "k = key") auto
  next
    fix k k' w
    assume h: "((map_of assigned)(key \<mapsto> v)) k = Some w
               \<and> ((map_of assigned)(key \<mapsto> v)) k' = Some w \<and> w \<noteq> 0"
    show "k = k'"
    proof (cases "k = key")
      case True
      with h have w: "w = v" by simp
      show ?thesis
      proof (rule ccontr)
        assume "k \<noteq> k'"
        with True h w have "k' \<noteq> key" "map_of assigned k' = Some v" by auto
        with fresh h w show False by blast
      qed
    next
      case False
      show ?thesis
      proof (cases "k' = key")
        case True
        with h have w: "w = v" by simp
        from False h w have "map_of assigned k = Some v" by simp
        with fresh [OF _ False] h w show ?thesis by blast
      next
        case k': False
        with False h assms(1) show ?thesis unfolding standardInv_def by auto
      qed
    qed
  qed
qed

lemma standardReachable_inv: "standardReachable assigned \<Longrightarrow> standardInv (map_of assigned)"
proof (induction rule: standardReachable.induct)
  case initial
  show ?case by (simp add: standardInv_def)
next
  case (select assigned key v)
  then show ?case by (intro standardInv_select)
qed







lemma validateAbilities_Standard:
  assumes "abilityMethod form = Standard"
  shows "fst (validateAbilities form) = standardAssignedAll (standardAssigned form)"
    and "creationTab (goNextFromAbilities form)
           = (if standardAssignedAll (standardAssigned form) then ReviewTab else AbilitiesTab)"
  using assms by (auto simp add: validateAbilities_def validationFails_def goNextFromAbilities_def)




lemma standard_facts:
  "abilityMethod standardForm = Standard"
  "abilityMethod unfinishedForm = Standard"
  "abilityMethod duplicateForm = Standard"
  by (simp_all add: standardForm_def unfinishedForm_def duplicateForm_def pointBuyForm_def)


text \<open>
  The validation does not compare the assigned values with each other: an assignment that
  holds 15 for two abilities and leaves 14 unused would pass it. The selects cannot produce
  that assignment.
\<close>

lemma validateAbilities_duplicate:
  "abilityMethod duplicateForm = Standard
   \<and> map_of (standardAssigned duplicateForm) ''strength'' = Some 15
   \<and> map_of (standardAssigned duplicateForm) ''dexterity'' = Some 15
   \<and> 14 \<in> set STANDARD_ARRAY
   \<and> 14 \<notin> set (map snd (standardAssigned duplicateForm))
   \<and> fst (validateAbilities duplicateForm)
   \<and> creationTab (goNextFromAbilities duplicateForm) = ReviewTab"
proof -
  have all: "standardAssignedAll (standardAssigned duplicateForm)"
    by (simp add: standardAssignedAll_def ability_keys_def duplicateForm_def)
  have pass: "fst (validateAbilities duplicateForm)"
    and tab: "creationTab (goNextFromAbilities duplicateForm) = ReviewTab"
    using validateAbilities_Standard [OF standard_facts(3)] all by simp_all
  have rest: "map_of (standardAssigned duplicateForm) ''strength'' = Some 15"
    "map_of (standardAssigned duplicateForm) ''dexterity'' = Some 15"
    "14 \<in> set STANDARD_ARRAY"
    "14 \<notin> set (map snd (standardAssigned duplicateForm))"
    by (simp_all add: duplicateForm_def STANDARD_ARRAY_def)
  show ?thesis using standard_facts(3) pass tab rest by blast
qed

lemma duplicate_unreachable: "\<not> standardReachable (standardAssigned duplicateForm)"
proof
  assume "standardReachable (standardAssigned duplicateForm)"
  then have inv: "standardInv (map_of (standardAssigned duplicateForm))"
    by (rule standardReachable_inv)
  have "map_of (standardAssigned duplicateForm) ''strength'' = Some 15"
    "map_of (standardAssigned duplicateForm) ''dexterity'' = Some 15"
    by (simp_all add: duplicateForm_def)
  with inv have "''strength'' = ''dexterity''" unfolding standardInv_def by fastforce
  then show False by simp
qed

end
